theory Spec2Isabelle
  imports Complex_Main "HOL-Library.Char_ord" "HOL-Library.List_Lexorder"
    "HOL-Library.Product_Lexorder"
begin

section \<open>Data model of dashboard.py\<close>

text \<open>
  The program keeps one pandas DataFrame of web-server log records and answers every
  query by filtering it and reducing the surviving rows.

  A cell of a column is an \<open>option\<close>: \<open>None\<close> is pandas' missing value (NaN, NaT).
  Numbers are exact rationals (the "decimal" of the record description). A numeric column
  has the dtype int64 or float64, which the frame records in \<open>int64_columns\<close>:
  \<^verbatim>\<open>pd.read_csv\<close> gives int64 to a column of whole numbers without an empty cell and
  float64 to every other numeric column. On whole numbers of small magnitude both
  arithmetics are exact; the rounding of float64 on other values is outside the model,
  and the property that compares sums added up in different orders (the group sums
  against the sum of the whole column) is stated for \<open>exact_column\<close> only.
  An instant is an integer count of nanoseconds since the epoch, without a time zone (the
  timestamps of the file carry no UTC offset); a calendar date is an integer count of
  days.

  A row carries one typed cell per column the program ever reads. Which of these columns
  the frame really has is the list \<open>columns\<close>: the source probes it with
  \<^verbatim>\<open>'X' in df.columns\<close>, and \<^verbatim>\<open>df['X']\<close> raises KeyError for a name that is not in it.
  The type parameter is the type of the Timestamp cell: text as read from the CSV file,
  an instant after \<^verbatim>\<open>load_data\<close>.
\<close>

type_synonym timestamp = int
type_synonym date = int

datatype error = FileNotFoundError | KeyError string | ValueError | TypeError

record 't log_record =
  Timestamp :: "'t option"
  Date :: "date option"
  Country :: "string option"
  Region :: "string option"
  City :: "string option"
  Request_Category :: "string option"
  Job_Title :: "string option"
  Sales_Rep :: "string option"
  IP_Address :: "string option"
  Service_Type :: "string option"
  Product_Name :: "string option"
  Page_Accessed :: "string option"
  Conversion_Status :: "string option"
  Likes :: "rat option"
  Revenue :: "rat option"
  Transaction_Amount :: "rat option"
  Profit :: "rat option"
  Sales_Target :: "rat option"

record 't dataframe =
  columns :: "string list"
  int64_columns :: "string list"
  rows :: "'t log_record list"

text \<open>\<^verbatim>\<open>pd.DataFrame()\<close>: no columns, no rows.\<close>

definition DataFrame :: "'t dataframe" where
  "DataFrame = \<lparr>columns = [], int64_columns = [], rows = []\<rparr>"

text \<open>\<^verbatim>\<open>df.empty\<close>: true when either axis has length 0.\<close>

definition empty :: "'t dataframe \<Rightarrow> bool" where
  "empty df \<longleftrightarrow> columns df = [] \<or> rows df = []"

text \<open>
  \<^verbatim>\<open>request.args.to_dict()\<close>: the query string as a dictionary from key to text, here an
  association list read with \<open>map_of\<close>.
\<close>

type_synonym params = "(string \<times> string) list"

text \<open>
  What \<^verbatim>\<open>pd.to_datetime\<close> returns for a text scalar that it can read: an instant
  without a time zone, an instant with one (the text carried a UTC offset), or NaT.
\<close>

datatype stamp = Naive timestamp | Aware timestamp | NaT

text \<open>Raising is a value: \<open>Inl\<close> the exception, \<open>Inr\<close> the result.\<close>

definition bind_err :: "error + 'a \<Rightarrow> ('a \<Rightarrow> error + 'b) \<Rightarrow> error + 'b" where
  "bind_err m f = (case m of Inl e \<Rightarrow> Inl e | Inr v \<Rightarrow> f v)"

section \<open>The filter: filter\_dataset\<close>

text \<open>
  \<^verbatim>\<open>if key in params and params[key]: dataframe = f(params[key], dataframe)\<close>:
  an absent key and the empty string leave the frame as it is.
\<close>

definition when_given ::
  "params \<Rightarrow> string \<Rightarrow> (string \<Rightarrow> 't dataframe \<Rightarrow> error + 't dataframe) \<Rightarrow>
   't dataframe \<Rightarrow> error + 't dataframe" where
  "when_given params key f dataframe =
     (case map_of params key of
        None \<Rightarrow> Inr dataframe
      | Some v \<Rightarrow> if v = [] then Inr dataframe else f v dataframe)"

text \<open>
  \<^verbatim>\<open>dataframe[dataframe[name] == v]\<close>: KeyError when the column is not in the frame;
  a missing cell is equal to no text.
\<close>

definition select_eq ::
  "string \<Rightarrow> ('t log_record \<Rightarrow> string option) \<Rightarrow> string \<Rightarrow> 't dataframe \<Rightarrow>
   error + 't dataframe" where
  "select_eq name col v dataframe =
     (if name \<in> set (columns dataframe)
      then Inr (dataframe\<lparr>rows := filter (\<lambda>r. col r = Some v) (rows dataframe)\<rparr>)
      else Inl (KeyError name))"

text \<open>
  \<^verbatim>\<open>dataframe[pd.to_datetime(dataframe['Timestamp']) >= pd.to_datetime(v)]\<close> and its
  \<^verbatim>\<open><=\<close> twin. The column is read first (KeyError), then the bound is parsed.
  \<open>to_datetime\<close> is pandas' parser of a text scalar, a parameter of the model: it
  raises, or returns a \<open>stamp\<close>. On the column, which holds instants already,
  \<^verbatim>\<open>pd.to_datetime\<close> changes nothing. A comparison with NaT on either side is false.
  A bound with a time zone cannot be compared with the column, which has none: pandas
  raises TypeError, whatever the rows.
\<close>

definition select_ts ::
  "(string \<Rightarrow> error + stamp) \<Rightarrow> (timestamp \<Rightarrow> timestamp \<Rightarrow> bool) \<Rightarrow> string \<Rightarrow>
   timestamp dataframe \<Rightarrow> error + timestamp dataframe" where
  "select_ts to_datetime cmp v dataframe =
     (if ''Timestamp'' \<in> set (columns dataframe)
      then bind_err (to_datetime v) (\<lambda>bound.
        case bound of
          Aware b \<Rightarrow> Inl TypeError
        | NaT \<Rightarrow> Inr (dataframe\<lparr>rows := filter (\<lambda>r. False) (rows dataframe)\<rparr>)
        | Naive b \<Rightarrow>
            Inr (dataframe\<lparr>rows :=
              filter (\<lambda>r. case Timestamp r of Some t \<Rightarrow> cmp t b | None \<Rightarrow> False)
                     (rows dataframe)\<rparr>))
      else Inl (KeyError ''Timestamp''))"

definition filter_dataset ::
  "(string \<Rightarrow> error + stamp) \<Rightarrow> timestamp dataframe \<Rightarrow> params \<Rightarrow>
   error + timestamp dataframe" where
  "filter_dataset to_datetime dataframe params =
     (if empty dataframe then Inr dataframe
      else
        bind_err (when_given params ''start_date''
                    (select_ts to_datetime (\<lambda>t b. t \<ge> b)) dataframe) (\<lambda>dataframe.
        bind_err (when_given params ''end_date''
                    (select_ts to_datetime (\<lambda>t b. t \<le> b)) dataframe) (\<lambda>dataframe.
        bind_err (when_given params ''country''
                    (select_eq ''Country'' Country) dataframe) (\<lambda>dataframe.
        bind_err (when_given params ''region''
                    (select_eq ''Region'' Region) dataframe) (\<lambda>dataframe.
        bind_err (when_given params ''city''
                    (select_eq ''City'' City) dataframe) (\<lambda>dataframe.
        bind_err (when_given params ''activity''
                    (select_eq ''Request_Category'' Request_Category) dataframe) (\<lambda>dataframe.
        bind_err (when_given params ''job_title''
                    (\<lambda>v dataframe.
                       if ''Job_Title'' \<in> set (columns dataframe)
                       then select_eq ''Job_Title'' Job_Title v dataframe
                       else Inr dataframe) dataframe) (\<lambda>dataframe.
        when_given params ''sales_rep''
                    (select_eq ''Sales_Rep'' Sales_Rep) dataframe))))))))"

section \<open>Loading: load\_data and the global frame\<close>

text \<open>
  The calendar date of an instant (\<^verbatim>\<open>.dt.date\<close>): whole days since the epoch.
\<close>

definition date_of :: "timestamp \<Rightarrow> date" where
  "date_of t = t div 86400000000000"

text \<open>
  \<^verbatim>\<open>df["Revenue"] - df["Transaction_Amount"]\<close>, cell by cell: NaN when either cell is
  missing.
\<close>

definition minus_cell :: "rat option \<Rightarrow> rat option \<Rightarrow> rat option" where
  "minus_cell a b = (case (a, b) of (Some x, Some y) \<Rightarrow> Some (x - y) | _ \<Rightarrow> None)"

text \<open>\<^verbatim>\<open>df[name] = ...\<close>: a new column goes last, an existing one keeps its place.\<close>

definition with_column :: "string \<Rightarrow> string list \<Rightarrow> string list" where
  "with_column name cols = (if name \<in> set cols then cols else cols @ [name])"

text \<open>
  The argument of \<open>load_data\<close> is what \<^verbatim>\<open>pd.read_csv(DATASET_PATH)\<close> returns, or
  \<open>None\<close> when the file does not exist. The steps are the source's, in its order:
  Timestamp parsed, Profit derived (from the two columns when the frame has both, the
  scalar 0 otherwise), Date derived, missing job titles filled, rows without a date
  dropped.

  \<open>to_datetime_coerce\<close> is \<^verbatim>\<open>pd.to_datetime(column, errors="coerce")\<close> on the text
  column of the file, a parameter of the model: pandas settles on one format for the
  whole column and returns one cell per cell, NaT where the cell is empty or does not
  fit. It does not raise.

  The difference of two int64 columns is int64, every other difference is float64, and
  the scalar 0 makes an int64 column.
\<close>

definition load_data ::
  "(string option list \<Rightarrow> timestamp option list) \<Rightarrow> string dataframe option \<Rightarrow>
   error + timestamp dataframe" where
  "load_data to_datetime_coerce file =
     (case file of
        None \<Rightarrow> Inl FileNotFoundError
      | Some df \<Rightarrow>
          if ''Timestamp'' \<notin> set (columns df) then Inl (KeyError ''Timestamp'')
          else
            let both = (''Revenue'' \<in> set (columns df) \<and>
                        ''Transaction_Amount'' \<in> set (columns df));
                fill = (''Job_Title'' \<in> set (columns df));
                whole = (\<not> both \<or>
                         (''Revenue'' \<in> set (int64_columns df) \<and>
                          ''Transaction_Amount'' \<in> set (int64_columns df)));
                load = (\<lambda>(r, ts).
                  \<lparr>Timestamp = ts,
                   Date = map_option date_of ts,
                   Country = Country r,
                   Region = Region r,
                   City = City r,
                   Request_Category = Request_Category r,
                   Job_Title = (if fill
                                then (case Job_Title r of
                                        None \<Rightarrow> Some ''Unknown''
                                      | Some j \<Rightarrow> Some j)
                                else Job_Title r),
                   Sales_Rep = Sales_Rep r,
                   IP_Address = IP_Address r,
                   Service_Type = Service_Type r,
                   Product_Name = Product_Name r,
                   Page_Accessed = Page_Accessed r,
                   Conversion_Status = Conversion_Status r,
                   Likes = Likes r,
                   Revenue = Revenue r,
                   Transaction_Amount = Transaction_Amount r,
                   Profit = (if both
                             then minus_cell (Revenue r) (Transaction_Amount r)
                             else Some 0),
                   Sales_Target = Sales_Target r\<rparr>)
            in Inr \<lparr>columns = with_column ''Date'' (with_column ''Profit'' (columns df)),
                    int64_columns =
                      (if whole then with_column ''Profit'' (int64_columns df)
                       else removeAll ''Profit'' (int64_columns df)),
                    rows = filter (\<lambda>r. Date r \<noteq> None)
                             (map load
                                (zip (rows df)
                                     (to_datetime_coerce (map Timestamp (rows df)))))\<rparr>)"

text \<open>
  The module-level \<^verbatim>\<open>try: df = load_data() except FileNotFoundError: df = pd.DataFrame()\<close>.
  Any other exception is not caught.
\<close>

definition global_df ::
  "(string option list \<Rightarrow> timestamp option list) \<Rightarrow> string dataframe option \<Rightarrow>
   error + timestamp dataframe" where
  "global_df to_datetime_coerce file =
     (case load_data to_datetime_coerce file of
        Inl FileNotFoundError \<Rightarrow> Inr DataFrame
      | Inl e \<Rightarrow> Inl e
      | Inr df \<Rightarrow> Inr df)"

section \<open>Series and group operations\<close>

text \<open>The values of a column that are present, in row order.\<close>

fun dropna :: "'a option list \<Rightarrow> 'a list" where
  "dropna [] = []"
| "dropna (None # s) = dropna s"
| "dropna (Some x # s) = x # dropna s"

text \<open>The distinct values in order of first appearance.\<close>

definition unique :: "'a list \<Rightarrow> 'a list" where
  "unique xs = rev (remdups (rev xs))"

text \<open>\<^verbatim>\<open>Series.nunique()\<close>: distinct values, missing ones not counted.\<close>

definition nunique :: "'a option list \<Rightarrow> nat" where
  "nunique s = length (unique (dropna s))"

text \<open>\<^verbatim>\<open>Series.sum()\<close>: missing values are skipped, the empty sum is 0.\<close>

definition series_sum :: "rat option list \<Rightarrow> rat" where
  "series_sum s = sum_list (dropna s)"

text \<open>\<^verbatim>\<open>column > 0\<close> and \<^verbatim>\<open>column < 0\<close> on one cell: false for a missing value.\<close>

definition gt0 :: "rat option \<Rightarrow> bool" where
  "gt0 c = (case c of None \<Rightarrow> False | Some x \<Rightarrow> x > 0)"

definition lt0 :: "rat option \<Rightarrow> bool" where
  "lt0 c = (case c of None \<Rightarrow> False | Some x \<Rightarrow> x < 0)"

text \<open>
  \<^verbatim>\<open>Series.value_counts()\<close>: one entry per distinct present value with its number of
  occurrences, largest count first, equal counts in order of first appearance.
\<close>

definition value_counts :: "'a option list \<Rightarrow> ('a \<times> nat) list" where
  "value_counts s =
     (let vs = dropna s
      in sort_key (\<lambda>(k, c). - int c) (map (\<lambda>k. (k, count_list vs k)) (unique vs)))"

text \<open>
  \<^verbatim>\<open>Series.idxmax()\<close>: the label of the first largest entry; ValueError on an empty
  series.
\<close>

fun idxmax :: "('a \<times> nat) list \<Rightarrow> error + 'a" where
  "idxmax [] = Inl ValueError"
| "idxmax ((k, c) # s) =
     Inr (fst (foldl (\<lambda>(bk, bc) (k', c'). if c' > bc then (k', c') else (bk, bc)) (k, c) s))"

text \<open>
  \<^verbatim>\<open>groupby(key)\<close>: rows whose key is missing belong to no group (pandas' default
  \<^verbatim>\<open>dropna=True\<close>); the groups come out sorted by key.
\<close>

definition group_keys :: "('k::linorder) option list \<Rightarrow> 'k list" where
  "group_keys ks = sort (remdups (dropna ks))"

definition groupby_sum ::
  "('r \<Rightarrow> ('k::linorder) option) \<Rightarrow> ('r \<Rightarrow> rat option) \<Rightarrow> 'r list \<Rightarrow> ('k \<times> rat) list" where
  "groupby_sum key val rs =
     map (\<lambda>k. (k, series_sum (map val (filter (\<lambda>r. key r = Some k) rs))))
         (group_keys (map key rs))"

definition groupby_size :: "('r \<Rightarrow> ('k::linorder) option) \<Rightarrow> 'r list \<Rightarrow> ('k \<times> nat) list" where
  "groupby_size key rs =
     map (\<lambda>k. (k, length (filter (\<lambda>r. key r = Some k) rs)))
         (group_keys (map key rs))"

section \<open>Result tables and JSON\<close>

datatype json =
    JNaN
  | JNum rat
  | JStr string
  | JDate date
  | JArr "json list"
  | JObj "(string \<times> json) list"

text \<open>
  A small frame built by an aggregation (\<^verbatim>\<open>reset_index()\<close>): column names and rows of
  values. \<^verbatim>\<open>pd.DataFrame()\<close> is the table with no column and no row.
\<close>

record table =
  header :: "string list"
  body :: "json list list"

definition no_table :: table where
  "no_table = \<lparr>header = [], body = []\<rparr>"

text \<open>
  \<^verbatim>\<open>t.columns = names\<close>: pandas raises ValueError (length mismatch) unless there are as
  many names as columns.
\<close>

definition set_columns :: "string list \<Rightarrow> table \<Rightarrow> error + table" where
  "set_columns names t =
     (if length names = length (header t) then Inr (t\<lparr>header := names\<rparr>)
      else Inl ValueError)"

text \<open>\<^verbatim>\<open>t.to_dict(orient='records')\<close>: one object per row.\<close>

definition to_dict_records :: "table \<Rightarrow> json" where
  "to_dict_records t = JArr (map (\<lambda>r. JObj (zip (header t) r)) (body t))"

text \<open>\<^verbatim>\<open>series.reset_index()\<close> of a table of counts or of sums keyed by text.\<close>

definition counts_table :: "string \<Rightarrow> string \<Rightarrow> (string \<times> nat) list \<Rightarrow> table" where
  "counts_table key_name val_name s =
     \<lparr>header = [key_name, val_name],
      body = map (\<lambda>(k, c). [JStr k, JNum (of_nat c)]) s\<rparr>"

definition sums_table :: "string \<Rightarrow> string \<Rightarrow> (string \<times> rat) list \<Rightarrow> table" where
  "sums_table key_name val_name s =
     \<lparr>header = [key_name, val_name],
      body = map (\<lambda>(k, x). [JStr k, JNum x]) s\<rparr>"

definition filters :: "params \<Rightarrow> json" where
  "filters params = JObj (map (\<lambda>(k, v). (k, JStr v)) params)"

text \<open>The answer of an endpoint that found no row.\<close>

definition no_data :: "string \<Rightarrow> params \<Rightarrow> json" where
  "no_data message params =
     JObj [(''message'', JStr message), (''filters'', filters params),
           (''data_count'', JNum 0)]"

text \<open>
  A number that an endpoint hands to \<^verbatim>\<open>jsonify\<close>: a Python int or float (numpy.float64
  is a Python float), or a numpy.int64, which is what \<^verbatim>\<open>.sum()\<close> returns on an int64
  column. Flask's encoder raises TypeError on a numpy.int64.
\<close>

datatype number = Native rat | NpInt64 rat

definition value_of :: "number \<Rightarrow> rat" where
  "value_of n = (case n of Native x \<Rightarrow> x | NpInt64 x \<Rightarrow> x)"

definition is_native :: "number \<Rightarrow> bool" where
  "is_native n = (case n of Native x \<Rightarrow> True | NpInt64 x \<Rightarrow> False)"

definition jsonify_number :: "number \<Rightarrow> error + json" where
  "jsonify_number n = (case n of Native x \<Rightarrow> Inr (JNum x) | NpInt64 x \<Rightarrow> Inl TypeError)"

text \<open>The scalar of \<^verbatim>\<open>df[...][name].sum()\<close>, by the dtype of the column.\<close>

definition sum_scalar :: "'t dataframe \<Rightarrow> string \<Rightarrow> rat \<Rightarrow> number" where
  "sum_scalar df name x = (if name \<in> set (int64_columns df) then NpInt64 x else Native x)"

section \<open>The endpoints\<close>

text \<open>
  Every endpoint takes the global frame and the query parameters, filters, and answers
  with JSON. \<^verbatim>\<open>df.copy()\<close> is the frame itself in a model without mutation.
  \<^verbatim>\<open>to_dict(orient='records')\<close>, \<^verbatim>\<open>len\<close> and \<^verbatim>\<open>nunique\<close> return Python numbers,
  which \<^verbatim>\<open>jsonify\<close> takes; the sums that go to \<^verbatim>\<open>jsonify\<close> directly are \<open>number\<close>s.
\<close>

definition total_entries ::
  "(string \<Rightarrow> error + stamp) \<Rightarrow> timestamp dataframe \<Rightarrow> params \<Rightarrow> error + json" where
  "total_entries to_datetime df params =
     bind_err (filter_dataset to_datetime df params) (\<lambda>filtered_df.
       Inr (JObj [(''total_entries'', JNum (of_nat (length (rows filtered_df))))]))"

definition unique_visitors ::
  "(string \<Rightarrow> error + stamp) \<Rightarrow> timestamp dataframe \<Rightarrow> params \<Rightarrow> error + json" where
  "unique_visitors to_datetime df params =
     bind_err (filter_dataset to_datetime df params) (\<lambda>filtered_df.
       let visitors = (if ''IP_Address'' \<in> set (columns filtered_df)
                       then nunique (map IP_Address (rows filtered_df)) else 0)
       in Inr (JObj [(''unique_visitors'', JNum (of_nat visitors))]))"

text \<open>
  \<^verbatim>\<open>filtered_df['Date'] = filtered_df['Timestamp'].dt.date\<close>: KeyError without the
  Timestamp column.
\<close>

definition assign_date :: "timestamp dataframe \<Rightarrow> error + timestamp dataframe" where
  "assign_date filtered_df =
     (if ''Timestamp'' \<in> set (columns filtered_df)
      then Inr (filtered_df
                  \<lparr>columns := with_column ''Date'' (columns filtered_df),
                   rows := map (\<lambda>r. r\<lparr>Date := map_option date_of (Timestamp r)\<rparr>)
                               (rows filtered_df)\<rparr>)
      else Inl (KeyError ''Timestamp''))"

text \<open>\<^verbatim>\<open>groupby('Date').size().reset_index(name='Interactions')\<close>\<close>

definition daily_interactions :: "timestamp dataframe \<Rightarrow> (date \<times> nat) list" where
  "daily_interactions filtered_df = groupby_size Date (rows filtered_df)"

definition trends ::
  "(string \<Rightarrow> error + stamp) \<Rightarrow> timestamp dataframe \<Rightarrow> params \<Rightarrow> error + json" where
  "trends to_datetime df params =
     bind_err (filter_dataset to_datetime df params) (\<lambda>filtered_df.
     bind_err (assign_date filtered_df) (\<lambda>filtered_df.
       Inr (to_dict_records
              \<lparr>header = [''Date'', ''Interactions''],
               body = map (\<lambda>(d, n). [JDate d, JNum (of_nat n)])
                          (daily_interactions filtered_df)\<rparr>)))"

definition service_requests ::
  "(string \<Rightarrow> error + stamp) \<Rightarrow> timestamp dataframe \<Rightarrow> params \<Rightarrow> error + json" where
  "service_requests to_datetime df params =
     bind_err (filter_dataset to_datetime df params) (\<lambda>filtered_df.
     bind_err (set_columns [''Service_Type'', ''Count'']
                 (if ''Service_Type'' \<in> set (columns filtered_df)
                  then counts_table ''Service_Type'' ''count''
                         (value_counts (map Service_Type (rows filtered_df)))
                  else no_table)) (\<lambda>sr_df.
       Inr (to_dict_records sr_df)))"

text \<open>
  The three totals of \<open>sales_metrics\<close>, as functions of the filtered frame:
  \<^verbatim>\<open>filtered_df[filtered_df['Transaction_Amount'] > 0]['Transaction_Amount'].sum()
    if 'Transaction_Amount' in filtered_df.columns else 0\<close>
  and the same on Profit with \<^verbatim>\<open>> 0\<close> and with \<^verbatim>\<open>< 0\<close>. The first is also the
  total\_sales of \<open>generate_insights\<close>.
\<close>

definition total_sales_of :: "'t dataframe \<Rightarrow> number" where
  "total_sales_of filtered_df =
     (if ''Transaction_Amount'' \<in> set (columns filtered_df)
      then sum_scalar filtered_df ''Transaction_Amount''
             (series_sum (map Transaction_Amount
                (filter (\<lambda>r. gt0 (Transaction_Amount r)) (rows filtered_df))))
      else Native 0)"

definition total_profit_of :: "'t dataframe \<Rightarrow> number" where
  "total_profit_of filtered_df =
     (if ''Profit'' \<in> set (columns filtered_df)
      then sum_scalar filtered_df ''Profit''
             (series_sum (map Profit (filter (\<lambda>r. gt0 (Profit r)) (rows filtered_df))))
      else Native 0)"

definition total_loss_of :: "'t dataframe \<Rightarrow> number" where
  "total_loss_of filtered_df =
     (if ''Profit'' \<in> set (columns filtered_df)
      then sum_scalar filtered_df ''Profit''
             (series_sum (map Profit (filter (\<lambda>r. lt0 (Profit r)) (rows filtered_df))))
      else Native 0)"

definition sales_metrics ::
  "(string \<Rightarrow> error + stamp) \<Rightarrow> timestamp dataframe \<Rightarrow> params \<Rightarrow> error + json" where
  "sales_metrics to_datetime df params =
     bind_err (filter_dataset to_datetime df params) (\<lambda>filtered_df.
       if empty filtered_df
       then Inr (no_data ''No sales metrics available for the selected filters'' params)
       else
         bind_err (jsonify_number (total_sales_of filtered_df)) (\<lambda>total_sales.
         bind_err (jsonify_number (total_profit_of filtered_df)) (\<lambda>total_profit.
         bind_err (jsonify_number (total_loss_of filtered_df)) (\<lambda>total_loss.
           Inr (JObj [(''total_sales'', total_sales),
                      (''total_profit'', total_profit),
                      (''total_loss'', total_loss)])))))"

text \<open>
  In \<open>top_products\<close> the table of summed likes is sorted by
  \<^verbatim>\<open>sort_values(by='Likes', ascending=False)\<close>, which raises KeyError on the table without
  columns. The default sort of pandas is not stable, so the order among rows with equal
  sums is not determined by the source; the model keeps their order, and no property
  below depends on it.
\<close>

definition top_products ::
  "(string \<Rightarrow> error + stamp) \<Rightarrow> timestamp dataframe \<Rightarrow> params \<Rightarrow> error + json" where
  "top_products to_datetime df params =
     bind_err (filter_dataset to_datetime df params) (\<lambda>filtered_df.
       if empty filtered_df
       then Inr (no_data ''No product data available for the selected filters'' params)
       else
         bind_err (set_columns [''Product_Name'', ''Sales_Count'']
                     (if ''Product_Name'' \<in> set (columns filtered_df)
                      then counts_table ''Product_Name'' ''count''
                             (value_counts (map Product_Name (rows filtered_df)))
                      else no_table)) (\<lambda>top_sold.
         bind_err (if ''Product_Name'' \<in> set (columns filtered_df) \<and>
                      ''Likes'' \<in> set (columns filtered_df)
                   then Inr (sums_table ''Product_Name'' ''Likes''
                               (sort_key (\<lambda>(k, x). - x)
                                  (groupby_sum Product_Name Likes (rows filtered_df))))
                   else Inl (KeyError ''Likes'')) (\<lambda>top_liked.
           Inr (JObj [(''top_sold_products'', to_dict_records top_sold),
                      (''top_liked_products'', to_dict_records top_liked)]))))"

text \<open>The key of \<^verbatim>\<open>groupby(['Country', 'Region', 'City', 'Product_Name'])\<close>.\<close>

definition location_key ::
  "'t log_record \<Rightarrow> (string \<times> string \<times> string \<times> string) option" where
  "location_key r =
     (case (Country r, Region r, City r, Product_Name r) of
        (Some a, Some b, Some c, Some d) \<Rightarrow> Some (a, b, c, d)
      | _ \<Rightarrow> None)"

definition customer_locations ::
  "(string \<Rightarrow> error + stamp) \<Rightarrow> timestamp dataframe \<Rightarrow> params \<Rightarrow> error + json" where
  "customer_locations to_datetime df params =
     bind_err (filter_dataset to_datetime df params) (\<lambda>filtered_df.
       if empty filtered_df
       then Inr (no_data ''No customer location data available for the selected filters'' params)
       else
         let location_df =
               (if {''Country'', ''Region'', ''City'', ''Product_Name''}
                     \<subseteq> set (columns filtered_df)
                then \<lparr>header = [''Country'', ''Region'', ''City'', ''Product_Name'',
                                ''Customer_Count''],
                      body = map (\<lambda>((a, b, c, d), n).
                                    [JStr a, JStr b, JStr c, JStr d, JNum (of_nat n)])
                                 (groupby_size location_key (rows filtered_df))\<rparr>
                else no_table)
         in Inr (to_dict_records location_df))"

definition page_access ::
  "(string \<Rightarrow> error + stamp) \<Rightarrow> timestamp dataframe \<Rightarrow> params \<Rightarrow> error + json" where
  "page_access to_datetime df params =
     bind_err (filter_dataset to_datetime df params) (\<lambda>filtered_df.
       if empty filtered_df
       then Inr (no_data ''No page access data available for the selected filters'' params)
       else
         bind_err (set_columns [''Page_Accessed'', ''Access_Count'']
                     (if ''Page_Accessed'' \<in> set (columns filtered_df)
                      then counts_table ''Page_Accessed'' ''count''
                             (value_counts (map Page_Accessed (rows filtered_df)))
                      else no_table)) (\<lambda>page_df.
           Inr (to_dict_records page_df)))"

text \<open>
  The message of \<open>job_title_counts\<close>; \<open>CHR 0x27\<close> is the apostrophe around the
  column name.
\<close>

definition job_title_message :: string where
  "job_title_message =
     CHR 0x27 # ''Job_Title'' @ CHR 0x27 # '' column not found or no data after filtering''"

definition job_title_counts ::
  "(string \<Rightarrow> error + stamp) \<Rightarrow> timestamp dataframe \<Rightarrow> params \<Rightarrow> error + json" where
  "job_title_counts to_datetime df params =
     bind_err (filter_dataset to_datetime df params) (\<lambda>filtered_df.
       if ''Job_Title'' \<notin> set (columns filtered_df) \<or> empty filtered_df
       then Inr (JObj [(''message'', JStr job_title_message),
                       (''filters'', filters params)])
       else
         bind_err (set_columns [''Job_Title'', ''Count'']
                     (counts_table ''Job_Title'' ''count''
                        (value_counts (map Job_Title (rows filtered_df))))) (\<lambda>job_counts.
           Inr (to_dict_records job_counts)))"

text \<open>
  The expression of \<open>generate_insights\<close> for the conversion rate, a function of the
  filtered frame:
  \<^verbatim>\<open>(filtered_df[filtered_df['Conversion_Status'] == 'Converted'].shape[0] / len(filtered_df)) * 100
    if 'Conversion_Status' in filtered_df.columns and len(filtered_df) > 0 else 0\<close>
\<close>

definition conversion_rate :: "'t dataframe \<Rightarrow> rat" where
  "conversion_rate filtered_df =
     (if ''Conversion_Status'' \<in> set (columns filtered_df) \<and> length (rows filtered_df) > 0
      then (of_nat (length (filter (\<lambda>r. Conversion_Status r = Some ''Converted'')
                              (rows filtered_df)))
            / of_nat (length (rows filtered_df))) * 100
      else 0)"

text \<open>\<^verbatim>\<open>daily['Interactions'].mean() if not daily.empty else 0\<close>\<close>

definition avg_daily_interactions :: "(date \<times> nat) list \<Rightarrow> rat" where
  "avg_daily_interactions daily =
     (if daily \<noteq> []
      then of_nat (sum_list (map snd daily)) / of_nat (length daily)
      else 0)"

definition generate_insights ::
  "(string \<Rightarrow> error + stamp) \<Rightarrow> timestamp dataframe \<Rightarrow> params \<Rightarrow> error + json" where
  "generate_insights to_datetime df params =
     bind_err (filter_dataset to_datetime df params) (\<lambda>filtered_df.
       if empty filtered_df
       then Inr (no_data ''No data available for the selected filters'' params)
       else
         bind_err (assign_date filtered_df) (\<lambda>filtered_df.
         bind_err (if ''Service_Type'' \<in> set (columns filtered_df) \<and> \<not> empty filtered_df
                   then bind_err (idxmax (value_counts (map Service_Type (rows filtered_df))))
                          (\<lambda>top. Inr (JStr top))
                   else Inr (JStr ''N/A'')) (\<lambda>top_service_request.
         bind_err (jsonify_number (total_sales_of filtered_df)) (\<lambda>total_sales.
           Inr (JObj
                [(''avg_daily_interactions'',
                    JNum (avg_daily_interactions (daily_interactions filtered_df))),
                 (''top_service_request'', top_service_request),
                 (''total_sales'', total_sales),
                 (''conversion_rate'', JNum (conversion_rate filtered_df)),
                 (''message'',
                    JStr (if conversion_rate filtered_df > 50
                          then ''Sales performance is strong''
                          else ''Sales performance needs improvement''))])))))"

definition sales_by_rep ::
  "(string \<Rightarrow> error + stamp) \<Rightarrow> timestamp dataframe \<Rightarrow> params \<Rightarrow> error + json" where
  "sales_by_rep to_datetime df params =
     bind_err (filter_dataset to_datetime df params) (\<lambda>filtered_df.
       if empty filtered_df
       then Inr (no_data ''No data for selected filters'' params)
       else
         bind_err (set_columns [''Sales_Rep'', ''Total_Sales'']
                     (if ''Sales_Rep'' \<in> set (columns filtered_df) \<and>
                         ''Transaction_Amount'' \<in> set (columns filtered_df)
                      then sums_table ''Sales_Rep'' ''Transaction_Amount''
                             (groupby_sum Sales_Rep Transaction_Amount (rows filtered_df))
                      else no_table)) (\<lambda>sales_data.
           Inr (to_dict_records sales_data)))"

section \<open>Individual performance (run\_streamlit, team-member view)\<close>

text \<open>
  The assignments under \<^verbatim>\<open>if not member_data.empty:\<close> (total\_sales,
  total\_revenue, sales\_target, achievement\_pct, delta\_value). A scalar that pandas may
  return as NaN is an \<open>option\<close>. NaN is true for Python's \<^verbatim>\<open>if\<close>, 0 is false;
  arithmetic with NaN gives NaN.
\<close>

record metrics =
  total_sales :: rat
  total_revenue :: rat
  sales_target :: "rat option"
  achievement_pct :: "rat option"
  delta_value :: "rat option"

text \<open>
  \<^verbatim>\<open>series.iloc[0]\<close>: the cell of the first row. \<open>individual_metrics\<close> reads it only
  from a series with a filled cell, hence with a first row; on a series without rows
  pandas would raise IndexError, and the equation for \<open>[]\<close> is never used.
\<close>

definition iloc0 :: "'a option list \<Rightarrow> 'a option" where
  "iloc0 s = (case s of [] \<Rightarrow> None | c # _ \<Rightarrow> c)"

definition individual_metrics :: "'t dataframe \<Rightarrow> metrics" where
  "individual_metrics member_data =
     (let sales = (if ''Transaction_Amount'' \<in> set (columns member_data)
                   then series_sum (map Transaction_Amount (rows member_data)) else 0);
          revenue = (if ''Revenue'' \<in> set (columns member_data)
                     then series_sum (map Revenue (rows member_data)) else 0);
          target = (if ''Sales_Target'' \<in> set (columns member_data) \<and>
                       \<not> list_all (\<lambda>c. c = None) (map Sales_Target (rows member_data))
                    then iloc0 (map Sales_Target (rows member_data))
                    else Some 0)
      in \<lparr>total_sales = sales,
          total_revenue = revenue,
          sales_target = target,
          achievement_pct =
            (if target \<noteq> Some 0
             then (case target of None \<Rightarrow> None | Some t \<Rightarrow> Some (revenue / t * 100))
             else Some 0),
          delta_value = (case target of None \<Rightarrow> None | Some t \<Rightarrow> Some (revenue - t))\<rparr>)"

section \<open>Vocabulary of the properties\<close>

text \<open>
  The filter as the specification words it: each non-empty field of the spec implies one
  predicate on a record, and a record is selected when it satisfies all of them.
\<close>

text \<open>The value of a field of the spec that is present and not empty.\<close>

definition given :: "params \<Rightarrow> string \<Rightarrow> string option" where
  "given params key =
     (case map_of params key of
        None \<Rightarrow> None
      | Some v \<Rightarrow> if v = [] then None else Some v)"

text \<open>Exact equality of a text attribute with the field's value.\<close>

definition eq_pred ::
  "params \<Rightarrow> string \<Rightarrow> ('t log_record \<Rightarrow> string option) \<Rightarrow> 't log_record \<Rightarrow> bool" where
  "eq_pred params key col r =
     (case given params key of None \<Rightarrow> True | Some v \<Rightarrow> col r = Some v)"

text \<open>An inclusive bound on the record's timestamp.\<close>

definition bound_pred ::
  "(string \<Rightarrow> error + stamp) \<Rightarrow> params \<Rightarrow> string \<Rightarrow>
   (timestamp \<Rightarrow> timestamp \<Rightarrow> bool) \<Rightarrow> timestamp log_record \<Rightarrow> bool" where
  "bound_pred to_datetime params key cmp r =
     (case given params key of
        None \<Rightarrow> True
      | Some v \<Rightarrow> (case (to_datetime v, Timestamp r) of
                    (Inr (Naive b), Some t) \<Rightarrow> cmp t b
                  | _ \<Rightarrow> False))"

definition satisfies ::
  "(string \<Rightarrow> error + stamp) \<Rightarrow> params \<Rightarrow> timestamp log_record \<Rightarrow> bool" where
  "satisfies to_datetime params r \<longleftrightarrow>
     bound_pred to_datetime params ''start_date'' (\<lambda>t b. b \<le> t) r \<and>
     bound_pred to_datetime params ''end_date'' (\<lambda>t b. t \<le> b) r \<and>
     eq_pred params ''country'' Country r \<and>
     eq_pred params ''region'' Region r \<and>
     eq_pred params ''city'' City r \<and>
     eq_pred params ''activity'' Request_Category r \<and>
     eq_pred params ''job_title'' Job_Title r \<and>
     eq_pred params ''sales_rep'' Sales_Rep r"

text \<open>A field that is given names a column of the frame.\<close>

definition needs :: "params \<Rightarrow> string \<Rightarrow> string \<Rightarrow> 't dataframe \<Rightarrow> bool" where
  "needs params key name df \<longleftrightarrow> given params key = None \<or> name \<in> set (columns df)"

definition schema_covers :: "params \<Rightarrow> 't dataframe \<Rightarrow> bool" where
  "schema_covers params df \<longleftrightarrow>
     needs params ''start_date'' ''Timestamp'' df \<and>
     needs params ''end_date'' ''Timestamp'' df \<and>
     needs params ''country'' ''Country'' df \<and>
     needs params ''region'' ''Region'' df \<and>
     needs params ''city'' ''City'' df \<and>
     needs params ''activity'' ''Request_Category'' df \<and>
     needs params ''job_title'' ''Job_Title'' df \<and>
     needs params ''sales_rep'' ''Sales_Rep'' df"

text \<open>
  A date bound that is given is well formed: the parser does not raise on it, and what it
  returns has no time zone.
\<close>

definition parses :: "(string \<Rightarrow> error + stamp) \<Rightarrow> params \<Rightarrow> string \<Rightarrow> bool" where
  "parses to_datetime params key =
     (case given params key of
        None \<Rightarrow> True
      | Some v \<Rightarrow> (case to_datetime v of
                    Inl e \<Rightarrow> False
                  | Inr (Aware b) \<Rightarrow> False
                  | Inr b \<Rightarrow> True))"

text \<open>What the chain needs in order not to raise: every column but Job\_Title.\<close>

definition runs :: "(string \<Rightarrow> error + stamp) \<Rightarrow> params \<Rightarrow> timestamp dataframe \<Rightarrow> bool" where
  "runs to_datetime params df \<longleftrightarrow>
     needs params ''start_date'' ''Timestamp'' df \<and> parses to_datetime params ''start_date'' \<and>
     needs params ''end_date'' ''Timestamp'' df \<and> parses to_datetime params ''end_date'' \<and>
     needs params ''country'' ''Country'' df \<and>
     needs params ''region'' ''Region'' df \<and>
     needs params ''city'' ''City'' df \<and>
     needs params ''activity'' ''Request_Category'' df \<and>
     needs params ''sales_rep'' ''Sales_Rep'' df"

text \<open>What the chain keeps: the job-title test counts only when the column is there.\<close>

definition keeps ::
  "(string \<Rightarrow> error + stamp) \<Rightarrow> params \<Rightarrow> string list \<Rightarrow> timestamp log_record \<Rightarrow> bool" where
  "keeps to_datetime params cols r \<longleftrightarrow>
     bound_pred to_datetime params ''start_date'' (\<lambda>t b. b \<le> t) r \<and>
     bound_pred to_datetime params ''end_date'' (\<lambda>t b. t \<le> b) r \<and>
     eq_pred params ''country'' Country r \<and>
     eq_pred params ''region'' Region r \<and>
     eq_pred params ''city'' City r \<and>
     eq_pred params ''activity'' Request_Category r \<and>
     (''Job_Title'' \<in> set cols \<longrightarrow> eq_pred params ''job_title'' Job_Title r) \<and>
     eq_pred params ''sales_rep'' Sales_Rep r"

text \<open>
  The values of a numeric field on which int64 and float64 sums are exact in whatever
  order they are added: whole numbers whose absolute values add up to less than
  \<open>2 ^ 53\<close>. There the sums of pandas are the sums of the model.
\<close>

definition exact_column :: "('r \<Rightarrow> rat option) \<Rightarrow> 'r list \<Rightarrow> bool" where
  "exact_column val rs \<longleftrightarrow>
     list_all (\<lambda>x. of_int \<lfloor>x\<rfloor> = x) (dropna (map val rs)) \<and>
     sum_list (map abs (dropna (map val rs))) < 2 ^ 53"

text \<open>A number that float64 and int64 hold exactly.\<close>

definition exact_number :: "rat \<Rightarrow> bool" where
  "exact_number x \<longleftrightarrow> of_int \<lfloor>x\<rfloor> = x \<and> \<bar>x\<bar> < 2 ^ 53"

text \<open>No recognised field of the spec is given.\<close>

definition all_empty :: "params \<Rightarrow> bool" where
  "all_empty params \<longleftrightarrow>
     list_all (\<lambda>key. given params key = None)
       [''start_date'', ''end_date'', ''country'', ''region'', ''city'', ''activity'',
        ''job_title'', ''sales_rep'']"

text \<open>
  The degraded shape: an object of exactly the three entries message (a text), filters
  (the query parameters) and data\_count (0).
\<close>

definition is_no_data :: "params \<Rightarrow> json \<Rightarrow> bool" where
  "is_no_data params j =
     (case j of
        JObj kvs \<Rightarrow>
          map fst kvs = [''message'', ''filters'', ''data_count''] \<and>
          (case map_of kvs ''message'' of Some (JStr m) \<Rightarrow> True | _ \<Rightarrow> False) \<and>
          map_of kvs ''filters'' = Some (filters params) \<and>
          map_of kvs ''data_count'' = Some (JNum 0)
      | _ \<Rightarrow> False)"

text \<open>The endpoints that test \<^verbatim>\<open>filtered_df.empty\<close> before they aggregate.\<close>

definition guarded_endpoints ::
  "((string \<Rightarrow> error + stamp) \<Rightarrow> timestamp dataframe \<Rightarrow> params \<Rightarrow> error + json) list" where
  "guarded_endpoints =
     [sales_metrics, top_products, customer_locations, page_access, generate_insights,
      sales_by_rep]"

subsection \<open>Sample data\<close>

text \<open>A record with every cell missing.\<close>

definition blank :: "'t log_record" where
  "blank = \<lparr>Timestamp = None, Date = None, Country = None, Region = None, City = None,
            Request_Category = None, Job_Title = None, Sales_Rep = None,
            IP_Address = None, Service_Type = None, Product_Name = None,
            Page_Accessed = None, Conversion_Status = None, Likes = None, Revenue = None,
            Transaction_Amount = None, Profit = None, Sales_Target = None\<rparr>"

text \<open>
  A stand-in for the parser: the texts \<open>''d1''\<close>, \<open>''d2''\<close>, \<open>''d3''\<close> are the
  midnights of three consecutive days, \<open>''d2Z''\<close> is the second of them with a time zone,
  \<open>''NaT''\<close> is NaT, and every other text raises. On a column the stand-in reads the
  same three texts and gives NaT for everything else.
\<close>

definition sample_to_datetime :: "string \<Rightarrow> error + stamp" where
  "sample_to_datetime s =
     (if s = ''d1'' then Inr (Naive 86400000000000)
      else if s = ''d2'' then Inr (Naive 172800000000000)
      else if s = ''d3'' then Inr (Naive 259200000000000)
      else if s = ''d2Z'' then Inr (Aware 172800000000000)
      else if s = ''NaT'' then Inr NaT
      else Inl ValueError)"

definition sample_coerce :: "string option list \<Rightarrow> timestamp option list" where
  "sample_coerce column =
     map (\<lambda>c. case c of
                None \<Rightarrow> None
              | Some s \<Rightarrow> (case sample_to_datetime s of
                            Inr (Naive t) \<Rightarrow> Some t
                          | _ \<Rightarrow> None)) column"

text \<open>
  A loaded frame with the columns the filter reads and three visits on three consecutive
  days.
\<close>

definition visit :: "timestamp \<Rightarrow> string \<Rightarrow> string \<Rightarrow> timestamp log_record" where
  "visit t country rep =
     blank\<lparr>Timestamp := Some t, Date := Some (date_of t), Country := Some country,
           Sales_Rep := Some rep, Job_Title := Some ''Unknown'', Profit := Some 0\<rparr>"

definition sample_store :: "timestamp dataframe" where
  "sample_store =
     \<lparr>columns = [''Timestamp'', ''Country'', ''Region'', ''City'', ''Request_Category'',
                 ''Job_Title'', ''Sales_Rep'', ''Profit'', ''Date''],
      int64_columns = [''Profit''],
      rows = [visit 86400000000000 ''X'' ''Ann'',
              visit 172800000000000 ''Y'' ''Bob'',
              visit 259200000000000 ''X'' ''Bob'']\<rparr>"

text \<open>A loaded frame whose file had no column but Timestamp.\<close>

definition bare_store :: "timestamp dataframe" where
  "bare_store =
     \<lparr>columns = [''Timestamp'', ''Profit'', ''Date''],
      int64_columns = [''Profit''],
      rows = [blank\<lparr>Timestamp := Some 86400000000000, Date := Some 1, Profit := Some 0\<rparr>]\<rparr>"

text \<open>
  Scenario C as a file: three records with transaction amounts 100, -20, 50 and revenues
  150, -10, 70.
\<close>

definition scenario_c :: "string dataframe" where
  "scenario_c =
     \<lparr>columns = [''Timestamp'', ''Transaction_Amount'', ''Revenue''],
      int64_columns = [''Transaction_Amount'', ''Revenue''],
      rows = [blank\<lparr>Timestamp := Some ''d1'', Transaction_Amount := Some 100, Revenue := Some 150\<rparr>,
              blank\<lparr>Timestamp := Some ''d1'', Transaction_Amount := Some (- 20), Revenue := Some (- 10)\<rparr>,
              blank\<lparr>Timestamp := Some ''d2'', Transaction_Amount := Some 50, Revenue := Some 70\<rparr>]\<rparr>"

text \<open>A file with both money columns and one record whose revenue cell is empty.\<close>

definition gap_file :: "string dataframe" where
  "gap_file =
     \<lparr>columns = [''Timestamp'', ''Transaction_Amount'', ''Revenue''],
      int64_columns = [''Transaction_Amount''],
      rows = [blank\<lparr>Timestamp := Some ''d1'', Transaction_Amount := Some 100\<rparr>]\<rparr>"

text \<open>
  The records of one representative: the sales target is missing in the first record and
  1000 in the second.
\<close>

definition member_rows :: "timestamp dataframe" where
  "member_rows =
     \<lparr>columns = [''Timestamp'', ''Sales_Rep'', ''Transaction_Amount'', ''Revenue'',
                 ''Sales_Target'', ''Profit'', ''Date''],
      int64_columns = [],
      rows = [(visit 86400000000000 ''X'' ''Ann'')
                \<lparr>Transaction_Amount := Some 400, Revenue := Some 500, Profit := Some 100\<rparr>,
              (visit 172800000000000 ''X'' ''Ann'')
                \<lparr>Transaction_Amount := Some 400, Revenue := Some 500, Profit := Some 100,
                 Sales_Target := Some 1000\<rparr>]\<rparr>"

text \<open>A loaded frame with a Service\_Type column in which no cell is filled.\<close>

definition silent_store :: "timestamp dataframe" where
  "silent_store =
     \<lparr>columns = [''Timestamp'', ''Service_Type'', ''Profit'', ''Date''],
      int64_columns = [''Profit''],
      rows = [blank\<lparr>Timestamp := Some 86400000000000, Date := Some 1, Profit := Some 0\<rparr>]\<rparr>"

section \<open>Properties of the filter\<close>

lemma bind_err_Inr [simp]: "bind_err (Inr v) f = f v"
  by (simp add: bind_err_def)

lemma bind_err_Inl [simp]: "bind_err (Inl e) f = Inl e"
  by (simp add: bind_err_def)

lemma bind_err_eq_Inr: "bind_err m f = Inr d \<longleftrightarrow> (\<exists>v. m = Inr v \<and> f v = Inr d)"
  by (cases m) simp_all

lemma when_given_none: "given params key = None \<Longrightarrow> when_given params key f df = Inr df"
  by (auto simp: given_def when_given_def split: option.splits if_splits)

lemma when_given_some: "given params key = Some v \<Longrightarrow> when_given params key f df = f v df"
  by (auto simp: given_def when_given_def split: option.splits if_splits)

lemma rows_update_same [simp]: "df\<lparr>rows := rows df\<rparr> = df"
  by simp

lemma needs_rows [simp]: "needs params key name (df\<lparr>rows := xs\<rparr>) = needs params key name df"
  by (simp add: needs_def)

text \<open>
  One step of the chain succeeds exactly when its column is there (and its bound parses),
  and then keeps the rows that satisfy the field's predicate.
\<close>

lemma step_eq_iff:
  "when_given params key (select_eq name col) df = Inr d \<longleftrightarrow>
     needs params key name df \<and>
     d = df\<lparr>rows := filter (eq_pred params key col) (rows df)\<rparr>"
proof (cases "given params key")
  case None
  then have h: "eq_pred params key col = (\<lambda>r. True)"
    by (simp add: eq_pred_def fun_eq_iff)
  from None show ?thesis
    by (auto simp: when_given_none needs_def h)
next
  case (Some v)
  then have h: "eq_pred params key col = (\<lambda>r. col r = Some v)"
    by (simp add: eq_pred_def fun_eq_iff)
  from Some show ?thesis
    by (auto simp: when_given_some needs_def select_eq_def h)
qed

lemma step_ts_iff:
  "when_given params key (select_ts to_datetime cmp) df = Inr d \<longleftrightarrow>
     needs params key ''Timestamp'' df \<and> parses to_datetime params key \<and>
     d = df\<lparr>rows := filter (bound_pred to_datetime params key cmp) (rows df)\<rparr>"
proof (cases "given params key")
  case None
  then have h: "bound_pred to_datetime params key cmp = (\<lambda>r. True)"
    by (simp add: bound_pred_def fun_eq_iff)
  from None show ?thesis
    by (auto simp: when_given_none needs_def parses_def h)
next
  case (Some v)
  show ?thesis
  proof (cases "to_datetime v")
    case (Inl e)
    with Some show ?thesis
      by (simp add: when_given_some select_ts_def parses_def)
  next
    case (Inr bound)
    show ?thesis
    proof (cases bound)
      case (Naive b)
      have h: "bound_pred to_datetime params key cmp =
               (\<lambda>r. case Timestamp r of Some t \<Rightarrow> cmp t b | None \<Rightarrow> False)"
        by (auto simp: bound_pred_def Some Inr Naive fun_eq_iff split: option.splits)
      from Some Inr Naive show ?thesis
        by (auto simp: when_given_some needs_def select_ts_def parses_def h)
    next
      case (Aware b)
      with Some Inr show ?thesis
        by (simp add: when_given_some select_ts_def parses_def)
    next
      case NaT
      have h: "bound_pred to_datetime params key cmp = (\<lambda>r. False)"
        by (auto simp: bound_pred_def Some Inr NaT fun_eq_iff split: option.splits)
      from Some Inr NaT show ?thesis
        by (auto simp: when_given_some needs_def select_ts_def parses_def h)
    qed
  qed
qed

lemma step_job_iff:
  "when_given params ''job_title''
     (\<lambda>v d. if ''Job_Title'' \<in> set (columns d)
             then select_eq ''Job_Title'' Job_Title v d else Inr d) df = Inr d \<longleftrightarrow>
   d = df\<lparr>rows := filter (\<lambda>r. ''Job_Title'' \<in> set (columns df) \<longrightarrow>
                               eq_pred params ''job_title'' Job_Title r) (rows df)\<rparr>"
proof (cases "given params ''job_title''")
  case None
  then have h: "eq_pred params ''job_title'' Job_Title = (\<lambda>r. True)"
    by (simp add: eq_pred_def fun_eq_iff)
  from None show ?thesis
    by (auto simp: when_given_none h)
next
  case (Some v)
  then have h: "eq_pred params ''job_title'' Job_Title = (\<lambda>r. Job_Title r = Some v)"
    by (simp add: eq_pred_def fun_eq_iff)
  from Some show ?thesis
    by (auto simp: when_given_some select_eq_def h)
qed


lemma bind_step_eq:
  "bind_err (when_given params key (select_eq name col) \<lparr>columns = c, int64_columns = i, rows = xs\<rparr>) f = Inr d \<longleftrightarrow>
     (given params key = None \<or> name \<in> set c) \<and>
     f \<lparr>columns = c, int64_columns = i, rows = filter (eq_pred params key col) xs\<rparr> = Inr d"
  by (auto simp: bind_err_eq_Inr step_eq_iff needs_def)

lemma bind_step_ts:
  "bind_err (when_given params key (select_ts to_datetime cmp) \<lparr>columns = c, int64_columns = i, rows = xs\<rparr>) f = Inr d \<longleftrightarrow>
     (given params key = None \<or> ''Timestamp'' \<in> set c) \<and> parses to_datetime params key \<and>
     f \<lparr>columns = c, int64_columns = i, rows = filter (bound_pred to_datetime params key cmp) xs\<rparr> = Inr d"
  by (auto simp: bind_err_eq_Inr step_ts_iff needs_def)

lemma bind_step_job:
  "bind_err (when_given params ''job_title''
     (\<lambda>v d. if ''Job_Title'' \<in> set (columns d)
             then select_eq ''Job_Title'' Job_Title v d else Inr d) \<lparr>columns = c, int64_columns = i, rows = xs\<rparr>) f = Inr d \<longleftrightarrow>
   f \<lparr>columns = c, int64_columns = i, rows = filter (\<lambda>r. ''Job_Title'' \<in> set c \<longrightarrow>
                               eq_pred params ''job_title'' Job_Title r) xs\<rparr> = Inr d"
  by (auto simp: bind_err_eq_Inr step_job_iff)

lemma last_step_eq:
  "when_given params key (select_eq name col) \<lparr>columns = c, int64_columns = i, rows = xs\<rparr> = Inr d \<longleftrightarrow>
     (given params key = None \<or> name \<in> set c) \<and>
     d = \<lparr>columns = c, int64_columns = i, rows = filter (eq_pred params key col) xs\<rparr>"
  by (auto simp: step_eq_iff needs_def)

lemma runs_rows [simp]: "runs to_datetime params (df\<lparr>rows := xs\<rparr>) = runs to_datetime params df"
  by (simp add: runs_def)

lemma filter_dataset_iff:
  assumes "\<not> empty df"
  shows "filter_dataset to_datetime df params = Inr d \<longleftrightarrow>
           runs to_datetime params df \<and>
           d = df\<lparr>rows := filter (keeps to_datetime params (columns df)) (rows df)\<rparr>"
proof -
  obtain c i xs where df: "df = \<lparr>columns = c, int64_columns = i, rows = xs\<rparr>"
    by (cases df) simp
  have k: "filter (keeps to_datetime params c) xs =
        filter (eq_pred params ''sales_rep'' Sales_Rep)
         (filter (\<lambda>r. ''Job_Title'' \<in> set c \<longrightarrow> eq_pred params ''job_title'' Job_Title r)
          (filter (eq_pred params ''activity'' Request_Category)
           (filter (eq_pred params ''city'' City)
            (filter (eq_pred params ''region'' Region)
             (filter (eq_pred params ''country'' Country)
              (filter (bound_pred to_datetime params ''end_date'' (\<lambda>t b. t \<le> b))
               (filter (bound_pred to_datetime params ''start_date'' (\<lambda>t b. b \<le> t))
                 xs)))))))"
    unfolding filter_filter by (rule filter_cong [OF refl]) (auto simp: keeps_def)
  have r: "runs to_datetime params df \<longleftrightarrow>
     (given params ''start_date'' = None \<or> ''Timestamp'' \<in> set c) \<and>
     parses to_datetime params ''start_date'' \<and>
     (given params ''end_date'' = None \<or> ''Timestamp'' \<in> set c) \<and>
     parses to_datetime params ''end_date'' \<and>
     (given params ''country'' = None \<or> ''Country'' \<in> set c) \<and>
     (given params ''region'' = None \<or> ''Region'' \<in> set c) \<and>
     (given params ''city'' = None \<or> ''City'' \<in> set c) \<and>
     (given params ''activity'' = None \<or> ''Request_Category'' \<in> set c) \<and>
     (given params ''sales_rep'' = None \<or> ''Sales_Rep'' \<in> set c)"
    by (simp add: runs_def needs_def df)
  have e: "filter_dataset to_datetime df params = Inr d \<longleftrightarrow>
      bind_err (when_given params ''start_date''
                    (select_ts to_datetime (\<lambda>t b. t \<ge> b)) \<lparr>columns = c, int64_columns = i, rows = xs\<rparr>) (\<lambda>dataframe.
        bind_err (when_given params ''end_date''
                    (select_ts to_datetime (\<lambda>t b. t \<le> b)) dataframe) (\<lambda>dataframe.
        bind_err (when_given params ''country''
                    (select_eq ''Country'' Country) dataframe) (\<lambda>dataframe.
        bind_err (when_given params ''region''
                    (select_eq ''Region'' Region) dataframe) (\<lambda>dataframe.
        bind_err (when_given params ''city''
                    (select_eq ''City'' City) dataframe) (\<lambda>dataframe.
        bind_err (when_given params ''activity''
                    (select_eq ''Request_Category'' Request_Category) dataframe) (\<lambda>dataframe.
        bind_err (when_given params ''job_title''
                    (\<lambda>v dataframe.
                       if ''Job_Title'' \<in> set (columns dataframe)
                       then select_eq ''Job_Title'' Job_Title v dataframe
                       else Inr dataframe) dataframe) (\<lambda>dataframe.
        when_given params ''sales_rep''
                    (select_eq ''Sales_Rep'' Sales_Rep) dataframe))))))) = Inr d"
    using assms unfolding filter_dataset_def df by (simp only: if_False)
  have rhs: "df\<lparr>rows := filter (keeps to_datetime params (columns df)) (rows df)\<rparr> =
      \<lparr>columns = c, int64_columns = i, rows = filter (keeps to_datetime params c) xs\<rparr>"
    by (simp add: df)
  show ?thesis
    unfolding e r rhs k
    by (simp only: bind_step_eq bind_step_ts bind_step_job last_step_eq conj_assoc)
qed

lemma filter_dataset_empty: "empty df \<Longrightarrow> filter_dataset to_datetime df params = Inr df"
  by (simp add: filter_dataset_def)

lemma filter_dataset_columns:
  "filter_dataset to_datetime df params = Inr d \<Longrightarrow> columns d = columns df"
  by (cases "empty df") (auto simp: filter_dataset_empty filter_dataset_iff)

lemma keeps_satisfies:
  "''Job_Title'' \<in> set cols \<or> given params ''job_title'' = None \<Longrightarrow>
   keeps to_datetime params cols = satisfies to_datetime params"
  by (auto simp: keeps_def satisfies_def eq_pred_def fun_eq_iff)

text \<open>
  C2 (as amended). For every frame whose schema has the column of every given field, and
  every spec whose given date bounds parse to an instant without a time zone or to NaT,
  \<open>filter_dataset\<close> returns the frame with exactly the rows that satisfy the
  conjunction of the predicates of the given fields (inclusive bounds on Timestamp, exact
  text equality on Country, Region, City, Request\_Category, Job\_Title and Sales\_Rep),
  in their original order.
\<close>

theorem filter_dataset_conjunction:
  assumes "schema_covers params df"
    and "parses to_datetime params ''start_date''"
    and "parses to_datetime params ''end_date''"
  shows "\<exists>d. filter_dataset to_datetime df params = Inr d \<and>
             d = df\<lparr>rows := filter (satisfies to_datetime params) (rows df)\<rparr> \<and>
             (\<forall>r. r \<in> set (rows d) \<longleftrightarrow> r \<in> set (rows df) \<and> satisfies to_datetime params r)"
proof (cases "empty df")
  case False
  from assms have r: "runs to_datetime params df"
    by (simp add: schema_covers_def runs_def)
  from assms(1) have "''Job_Title'' \<in> set (columns df) \<or> given params ''job_title'' = None"
    by (auto simp: schema_covers_def needs_def)
  then have "keeps to_datetime params (columns df) = satisfies to_datetime params"
    by (rule keeps_satisfies)
  with r False show ?thesis
    by (simp add: filter_dataset_iff)
next
  case True
  have "satisfies to_datetime params r" if "r \<in> set (rows df)" for r
  proof -
    from that True have "columns df = []" by (auto simp: empty_def)
    with assms(1) show ?thesis
      by (auto simp: schema_covers_def needs_def satisfies_def eq_pred_def bound_pred_def)
  qed
  then have "filter (satisfies to_datetime params) (rows df) = rows df"
    and "\<forall>r. r \<in> set (rows df) \<longleftrightarrow> r \<in> set (rows df) \<and> satisfies to_datetime params r"
    by (auto simp: filter_id_conv)
  with True show ?thesis
    by (simp add: filter_dataset_empty)
qed

theorem filter_dataset_conjunction_witness:
  "schema_covers [(''start_date'', ''d2''), (''country'', ''X'')] sample_store \<and>
   parses sample_to_datetime [(''start_date'', ''d2''), (''country'', ''X'')] ''start_date'' \<and>
   parses sample_to_datetime [(''start_date'', ''d2''), (''country'', ''X'')] ''end_date'' \<and>
   filter_dataset sample_to_datetime sample_store [(''start_date'', ''d2''), (''country'', ''X'')]
     = Inr (sample_store\<lparr>rows := [visit 259200000000000 ''X'' ''Bob'']\<rparr>)"
proof -
  let ?p = "[(''start_date'', ''d2''), (''country'', ''X'')]"
  have c: "schema_covers ?p sample_store"
    by (simp add: schema_covers_def needs_def given_def sample_store_def)
  have s: "parses sample_to_datetime ?p ''start_date''"
    by (simp add: parses_def given_def sample_to_datetime_def)
  have e: "parses sample_to_datetime ?p ''end_date''"
    by (simp add: parses_def given_def)
  have f: "filter (satisfies sample_to_datetime ?p) (rows sample_store) =
           [visit 259200000000000 ''X'' ''Bob'']"
    by (simp add: satisfies_def bound_pred_def eq_pred_def given_def sample_to_datetime_def
        sample_store_def visit_def)
  from filter_dataset_conjunction [OF c s e] obtain d
    where "filter_dataset sample_to_datetime sample_store ?p = Inr d"
      and "d = sample_store\<lparr>rows := filter (satisfies sample_to_datetime ?p)
                                         (rows sample_store)\<rparr>"
    by blast
  with f have "filter_dataset sample_to_datetime sample_store ?p =
      Inr (sample_store\<lparr>rows := [visit 259200000000000 ''X'' ''Bob'']\<rparr>)"
    by simp
  with c s e show ?thesis by simp
qed

theorem filter_dataset_conjunction_counterexample:
  "filter_dataset sample_to_datetime sample_store [(''start_date'', ''d2Z'')]
     = Inl TypeError \<and>
   filter_dataset sample_to_datetime sample_store [(''end_date'', ''soon'')]
     = Inl ValueError \<and>
   filter_dataset sample_to_datetime bare_store [(''end_date'', ''d2''), (''city'', ''X'')]
     = Inl (KeyError ''City'')"
  by (simp add: filter_dataset_def empty_def when_given_def select_eq_def select_ts_def
      sample_to_datetime_def sample_store_def bare_store_def)

text \<open>
  C9. Filtering twice with the same spec is filtering once, whether the first pass returns
  a frame or raises; and a spec none of whose recognised fields is given returns the frame
  unchanged.
\<close>

theorem filter_dataset_idempotent_identity:
  "bind_err (filter_dataset to_datetime df params)
            (\<lambda>d. filter_dataset to_datetime d params)
     = filter_dataset to_datetime df params \<and>
   (all_empty params \<longrightarrow> filter_dataset to_datetime df params = Inr df)"
proof
  show "bind_err (filter_dataset to_datetime df params)
          (\<lambda>d. filter_dataset to_datetime d params) = filter_dataset to_datetime df params"
  proof (cases "filter_dataset to_datetime df params")
    case (Inl e)
    then show ?thesis by simp
  next
    case (Inr d)
    have "filter_dataset to_datetime d params = Inr d"
    proof (cases "empty d")
      case True
      then show ?thesis by (rule filter_dataset_empty)
    next
      case False
      have ne: "\<not> empty df"
      proof
        assume "empty df"
        with Inr have "d = df" by (simp add: filter_dataset_empty)
        with False \<open>empty df\<close> show False by simp
      qed
      with Inr have r: "runs to_datetime params df"
        and d: "d = df\<lparr>rows := filter (keeps to_datetime params (columns df)) (rows df)\<rparr>"
        by (simp_all add: filter_dataset_iff)
      from d have "d\<lparr>rows := filter (keeps to_datetime params (columns d)) (rows d)\<rparr> = d"
        by simp
      moreover from r d have "runs to_datetime params d" by simp
      ultimately show ?thesis using False by (simp add: filter_dataset_iff)
    qed
    with Inr show ?thesis by simp
  qed
next
  show "all_empty params \<longrightarrow> filter_dataset to_datetime df params = Inr df"
  proof
    assume a: "all_empty params"
    show "filter_dataset to_datetime df params = Inr df"
    proof (cases "empty df")
      case True
      then show ?thesis by (rule filter_dataset_empty)
    next
      case False
      from a have "runs to_datetime params df"
        by (simp add: all_empty_def runs_def needs_def parses_def)
      moreover from a have "keeps to_datetime params (columns df) = (\<lambda>r. True)"
        by (simp add: all_empty_def keeps_def eq_pred_def bound_pred_def fun_eq_iff)
      ultimately show ?thesis using False by (simp add: filter_dataset_iff)
    qed
  qed
qed

theorem filter_dataset_idempotent_identity_witness:
  "all_empty [(''country'', ''''), (''page'', ''2'')] \<and>
   filter_dataset sample_to_datetime sample_store [(''country'', ''''), (''page'', ''2'')]
     = Inr sample_store \<and>
   bind_err (filter_dataset sample_to_datetime sample_store [(''country'', ''X'')])
            (\<lambda>d. filter_dataset sample_to_datetime d [(''country'', ''X'')])
     = filter_dataset sample_to_datetime sample_store [(''country'', ''X'')]"
proof -
  have a: "all_empty [(''country'', ''''), (''page'', ''2'')]"
    by (simp add: all_empty_def given_def)
  show ?thesis
    using a
      filter_dataset_idempotent_identity
        [of sample_to_datetime sample_store "[(''country'', ''''), (''page'', ''2'')]"]
      filter_dataset_idempotent_identity
        [of sample_to_datetime sample_store "[(''country'', ''X'')]"]
    by blast
qed

text \<open>
  C3. On a loaded frame whose file had no Country, Region, City, Request\_Category or
  Sales\_Rep column, a given country, region, city, activity or sales\_rep field raises
  KeyError; only a given job\_title field is skipped when its column is absent.
\<close>

theorem filter_dataset_absent_column:
  "filter_dataset sample_to_datetime bare_store [(''country'', ''X'')]
     = Inl (KeyError ''Country'') \<and>
   filter_dataset sample_to_datetime bare_store [(''region'', ''X'')]
     = Inl (KeyError ''Region'') \<and>
   filter_dataset sample_to_datetime bare_store [(''city'', ''X'')]
     = Inl (KeyError ''City'') \<and>
   filter_dataset sample_to_datetime bare_store [(''activity'', ''X'')]
     = Inl (KeyError ''Request_Category'') \<and>
   filter_dataset sample_to_datetime bare_store [(''sales_rep'', ''X'')]
     = Inl (KeyError ''Sales_Rep'') \<and>
   filter_dataset sample_to_datetime bare_store [(''job_title'', ''X'')]
     = Inr bare_store"
  by (simp add: filter_dataset_def empty_def when_given_def select_eq_def bare_store_def)

section \<open>Properties of the aggregations\<close>

lemma series_sum_Nil [simp]: "series_sum [] = 0"
  by (simp add: series_sum_def)

lemma series_sum_Cons [simp]:
  "series_sum (c # s) = (case c of None \<Rightarrow> 0 | Some x \<Rightarrow> x) + series_sum s"
  by (cases c) (simp_all add: series_sum_def)

lemma set_dropna: "set (dropna s) = {x. Some x \<in> set s}"
  by (induction s rule: dropna.induct) auto

lemma set_group_keys: "set (group_keys ks) = {k. Some k \<in> set ks}"
  by (simp add: group_keys_def set_dropna)

lemma distinct_group_keys: "distinct (group_keys ks)"
  by (simp add: group_keys_def)

text \<open>
  Summing the group sums over any finite set of keys that holds every key of the rows
  gives the sum over the rows that have a key.
\<close>

lemma sum_over_groups:
  assumes "finite K" and "\<And>r k. r \<in> set rs \<Longrightarrow> key r = Some k \<Longrightarrow> k \<in> K"
  shows "(\<Sum>k\<in>K. series_sum (map val (filter (\<lambda>r. key r = Some k) rs))) =
         series_sum (map val (filter (\<lambda>r. key r \<noteq> None) rs))"
  using assms(2)
proof (induction rs)
  case Nil
  show ?case by simp
next
  case (Cons r rs)
  have ih: "(\<Sum>k\<in>K. series_sum (map val (filter (\<lambda>r. key r = Some k) rs))) =
            series_sum (map val (filter (\<lambda>r. key r \<noteq> None) rs))"
  proof (rule Cons.IH)
    fix r' k assume "r' \<in> set rs" "key r' = Some k"
    then show "k \<in> K" using Cons.prems [of r' k] by simp
  qed
  show ?case
  proof (cases "key r")
    case None
    with ih show ?thesis by simp
  next
    case (Some k0)
    have k0: "k0 \<in> K" using Cons.prems [of r k0] Some by simp
    let ?v = "case val r of None \<Rightarrow> 0 | Some x \<Rightarrow> x"
    let ?S = "\<lambda>k. series_sum (map val (filter (\<lambda>r. key r = Some k) rs))"
    have "(\<Sum>k\<in>K. series_sum (map val (filter (\<lambda>r. key r = Some k) (r # rs)))) =
          (\<Sum>k\<in>K. (if k = k0 then ?v else 0) + ?S k)"
      by (rule sum.cong) (auto simp: Some)
    also have "\<dots> = (\<Sum>k\<in>K. if k = k0 then ?v else 0) + (\<Sum>k\<in>K. ?S k)"
      by (rule sum.distrib)
    also have "(\<Sum>k\<in>K. if k = k0 then ?v else 0) = ?v"
      using assms(1) k0 by simp
    finally show ?thesis
      using ih by (simp add: Some)
  qed
qed

text \<open>
  In exact arithmetic the per-group sums add up to the sum over the rows that have a key.
\<close>

lemma groupby_sum_partition:
  "sum_list (map snd (groupby_sum key val rs)) =
   series_sum (map val (filter (\<lambda>r. key r \<noteq> None) rs))"
proof -
  let ?S = "\<lambda>k. series_sum (map val (filter (\<lambda>r. key r = Some k) rs))"
  let ?ks = "group_keys (map key rs)"
  have "sum_list (map snd (groupby_sum key val rs)) = sum_list (map ?S ?ks)"
    by (simp add: groupby_sum_def comp_def)
  also have "\<dots> = (\<Sum>k\<in>set ?ks. ?S k)"
    by (rule sum_list_distinct_conv_sum_set) (rule distinct_group_keys)
  also have "\<dots> = series_sum (map val (filter (\<lambda>r. key r \<noteq> None) rs))"
  proof (rule sum_over_groups)
    show "finite (set ?ks)" by (rule finite_set)
  next
    fix r k assume "r \<in> set rs" "key r = Some k"
    then have "Some k \<in> set (map key rs)" by force
    then show "k \<in> set ?ks" by (simp add: set_group_keys)
  qed
  finally show ?thesis .
qed

lemma whole_iff: "of_int \<lfloor>x\<rfloor> = x \<longleftrightarrow> x \<in> \<int>" for x :: rat
  by (metis Ints_cases Ints_of_int floor_of_int)

text \<open>Sums of whole numbers are whole, and no larger than the sum of the magnitudes.\<close>

lemma series_sum_Ints:
  assumes "list_all (\<lambda>x. x \<in> \<int>) (dropna (map val rs))"
  shows "series_sum (map val (filter P rs)) \<in> \<int>"
  using assms
proof (induction rs)
  case Nil
  show ?case by simp
next
  case (Cons r rs)
  then show ?case
    by (cases "val r") simp_all
qed

lemma series_sum_whole:
  assumes "list_all (\<lambda>x. of_int \<lfloor>x\<rfloor> = x) (dropna (map val rs))"
  shows "of_int \<lfloor>series_sum (map val (filter P rs))\<rfloor> = series_sum (map val (filter P rs))"
proof -
  from assms have "list_all (\<lambda>x. x \<in> \<int>) (dropna (map val rs))"
    unfolding whole_iff .
  then have "series_sum (map val (filter P rs)) \<in> \<int>"
    by (rule series_sum_Ints)
  then show ?thesis
    unfolding whole_iff .
qed

lemma series_sum_abs_le:
  "\<bar>series_sum (map val (filter P rs))\<bar> \<le> sum_list (map abs (dropna (map val rs)))"
proof (induction rs)
  case Nil
  show ?case by simp
next
  case (Cons r rs)
  have "0 \<le> sum_list (map abs (dropna (map val rs)))"
    by (rule sum_list_nonneg) auto
  with Cons show ?case
    by (cases "val r") auto
qed

lemma dropna_map_abs:
  "dropna (map (\<lambda>r. map_option abs (val r)) rs) = map abs (dropna (map val rs))"
proof (induction rs)
  case Nil
  show ?case by simp
next
  case (Cons r rs)
  then show ?case by (cases "val r") simp_all
qed

lemma groupby_sum_abs_le:
  "sum_list (map (\<lambda>(k, s). \<bar>s\<bar>) (groupby_sum key val rs)) \<le>
   sum_list (map abs (dropna (map val rs)))"
proof -
  let ?val = "\<lambda>r. map_option abs (val r)"
  let ?ks = "group_keys (map key rs)"
  have "sum_list (map (\<lambda>(k, s). \<bar>s\<bar>) (groupby_sum key val rs)) =
        sum_list (map (\<lambda>k. \<bar>series_sum (map val (filter (\<lambda>r. key r = Some k) rs))\<bar>) ?ks)"
    by (simp add: groupby_sum_def comp_def)
  also have "\<dots> \<le>
        sum_list (map (\<lambda>k. series_sum (map ?val (filter (\<lambda>r. key r = Some k) rs))) ?ks)"
  proof (rule sum_list_mono)
    fix k
    have "\<bar>series_sum (map val (filter (\<lambda>r. key r = Some k) rs))\<bar> \<le>
          \<bar>series_sum (map val (filter (\<lambda>r. True) (filter (\<lambda>r. key r = Some k) rs)))\<bar>"
      by simp
    also have "\<dots> \<le> sum_list (map abs (dropna (map val (filter (\<lambda>r. key r = Some k) rs))))"
      by (rule series_sum_abs_le)
    also have "\<dots> = series_sum (map ?val (filter (\<lambda>r. key r = Some k) rs))"
      by (simp add: series_sum_def dropna_map_abs [symmetric])
    finally show "\<bar>series_sum (map val (filter (\<lambda>r. key r = Some k) rs))\<bar> \<le>
                  series_sum (map ?val (filter (\<lambda>r. key r = Some k) rs))" .
  qed
  also have "\<dots> = sum_list (map snd (groupby_sum key ?val rs))"
    by (simp add: groupby_sum_def comp_def)
  also have "\<dots> = series_sum (map ?val (filter (\<lambda>r. key r \<noteq> None) rs))"
    by (rule groupby_sum_partition)
  also have "\<dots> = \<bar>series_sum (map ?val (filter (\<lambda>r. key r \<noteq> None) rs))\<bar>"
  proof -
    have "0 \<le> series_sum (map ?val (filter (\<lambda>r. key r \<noteq> None) rs))"
      unfolding series_sum_def dropna_map_abs by (rule sum_list_nonneg) auto
    then show ?thesis by simp
  qed
  also have "\<dots> \<le> sum_list (map abs (dropna (map ?val rs)))"
    by (rule series_sum_abs_le)
  also have "\<dots> = sum_list (map abs (dropna (map val rs)))"
    by (simp add: dropna_map_abs comp_def)
  finally show ?thesis .
qed

text \<open>
  C8 (as amended). For every list of rows, every group field and every numeric field
  whose values are whole numbers with magnitudes adding up to less than \<open>2 ^ 53\<close> (where
  the int64 and float64 sums of pandas are exact), the per-group sums of
  \<open>groupby_sum\<close> add up to the sum of the numeric field over the rows whose group field
  is present: a row with a missing group field is in no group. The group sums and that
  sum are again such whole numbers, so adding them is exact as well.
\<close>

theorem groupby_sum_total:
  assumes "exact_column val rs"
  shows "sum_list (map snd (groupby_sum key val rs)) =
           series_sum (map val (filter (\<lambda>r. key r \<noteq> None) rs)) \<and>
         exact_column (\<lambda>(k, s). Some s) (groupby_sum key val rs) \<and>
         exact_number (series_sum (map val (filter (\<lambda>r. key r \<noteq> None) rs)))"
proof -
  from assms have w: "list_all (\<lambda>x. of_int \<lfloor>x\<rfloor> = x) (dropna (map val rs))"
    and b: "sum_list (map abs (dropna (map val rs))) < 2 ^ 53"
    by (simp_all add: exact_column_def)
  have d: "dropna (map (\<lambda>(k, s). Some s) g) = map snd g" for g :: "('k \<times> rat) list"
    by (induction g) auto
  have "list_all (\<lambda>x. of_int \<lfloor>x\<rfloor> = x) (map snd (groupby_sum key val rs))"
    using series_sum_whole [OF w] by (simp add: groupby_sum_def list_all_iff)
  moreover have "sum_list (map abs (map snd (groupby_sum key val rs))) < 2 ^ 53"
    using groupby_sum_abs_le [of key val rs] b by (simp add: comp_def case_prod_unfold)
  ultimately have g: "exact_column (\<lambda>(k, s). Some s) (groupby_sum key val rs)"
    by (simp add: exact_column_def d)
  have t: "exact_number (series_sum (map val (filter (\<lambda>r. key r \<noteq> None) rs)))"
    using series_sum_whole [OF w] series_sum_abs_le [of val "\<lambda>r. key r \<noteq> None" rs] b
    by (simp add: exact_number_def)
  from groupby_sum_partition g t show ?thesis by blast
qed

theorem groupby_sum_total_witness:
  "exact_column Transaction_Amount
     [visit 0 ''X'' ''Ann'' \<lparr>Transaction_Amount := Some 1\<rparr>,
      visit 0 ''X'' ''Bob'' \<lparr>Transaction_Amount := Some 2\<rparr>,
      blank\<lparr>Transaction_Amount := Some 5\<rparr>,
      visit 0 ''X'' ''Bob'' \<lparr>Transaction_Amount := Some 3\<rparr>] \<and>
   groupby_sum Sales_Rep Transaction_Amount
     [visit 0 ''X'' ''Ann'' \<lparr>Transaction_Amount := Some 1\<rparr>,
      visit 0 ''X'' ''Bob'' \<lparr>Transaction_Amount := Some 2\<rparr>,
      blank\<lparr>Transaction_Amount := Some 5\<rparr>,
      visit 0 ''X'' ''Bob'' \<lparr>Transaction_Amount := Some 3\<rparr>] = [(''Ann'', 1), (''Bob'', 5)] \<and>
   series_sum (map Transaction_Amount (filter (\<lambda>r. Sales_Rep r \<noteq> None)
     [visit 0 ''X'' ''Ann'' \<lparr>Transaction_Amount := Some 1\<rparr>,
      visit 0 ''X'' ''Bob'' \<lparr>Transaction_Amount := Some 2\<rparr>,
      blank\<lparr>Transaction_Amount := Some 5\<rparr>,
      visit 0 ''X'' ''Bob'' \<lparr>Transaction_Amount := Some 3\<rparr>])) = 6"
proof -
  let ?rs = "[visit 0 ''X'' ''Ann'' \<lparr>Transaction_Amount := Some 1\<rparr>,
      visit 0 ''X'' ''Bob'' \<lparr>Transaction_Amount := Some 2\<rparr>,
      blank\<lparr>Transaction_Amount := Some 5\<rparr>,
      visit 0 ''X'' ''Bob'' \<lparr>Transaction_Amount := Some 3\<rparr>] :: timestamp log_record list"
  have e: "exact_column Transaction_Amount ?rs"
    by (simp add: exact_column_def visit_def blank_def)
  have g: "groupby_sum Sales_Rep Transaction_Amount ?rs = [(''Ann'', 1), (''Bob'', 5)]"
    by (simp add: groupby_sum_def group_keys_def visit_def blank_def)
  from groupby_sum_total [OF e, of Sales_Rep] g
  have "series_sum (map Transaction_Amount (filter (\<lambda>r. Sales_Rep r \<noteq> None) ?rs)) = 6"
    by simp
  with e g show ?thesis by simp
qed

theorem groupby_sum_total_counterexample:
  "exact_column Transaction_Amount
      [blank\<lparr>Transaction_Amount := Some 5\<rparr>, visit 0 ''X'' ''Ann'' \<lparr>Transaction_Amount := Some 7\<rparr>] \<and>
   sum_list (map snd (groupby_sum Sales_Rep Transaction_Amount
      [blank\<lparr>Transaction_Amount := Some 5\<rparr>, visit 0 ''X'' ''Ann'' \<lparr>Transaction_Amount := Some 7\<rparr>]))
     = 7 \<and>
   series_sum (map Transaction_Amount
      [blank\<lparr>Transaction_Amount := Some 5\<rparr>, visit 0 ''X'' ''Ann'' \<lparr>Transaction_Amount := Some 7\<rparr>])
     = 12 \<and>
   sum_list (map snd (groupby_sum Sales_Rep Transaction_Amount
      [blank\<lparr>Transaction_Amount := Some 5\<rparr>, visit 0 ''X'' ''Ann'' \<lparr>Transaction_Amount := Some 7\<rparr>]))
     \<noteq> series_sum (map Transaction_Amount
      [blank\<lparr>Transaction_Amount := Some 5\<rparr>, visit 0 ''X'' ''Ann'' \<lparr>Transaction_Amount := Some 7\<rparr>])"
  by (simp add: exact_column_def groupby_sum_def group_keys_def blank_def visit_def)

lemma series_sum_where:
  "series_sum (map f (filter (\<lambda>r. case f r of None \<Rightarrow> False | Some x \<Rightarrow> P x) rs)) =
   sum_list (filter P (dropna (map f rs)))"
proof (induction rs)
  case Nil
  show ?case by simp
next
  case (Cons r rs)
  then show ?case by (cases "f r") simp_all
qed

lemma sum_list_positive: "0 \<le> sum_list (filter (\<lambda>x. 0 < x) (xs :: rat list))"
  by (rule sum_list_nonneg) auto

lemma sum_list_negative: "sum_list (filter (\<lambda>x. x < 0) (xs :: rat list)) \<le> 0"
  by (rule sum_list_nonpos) auto

lemma value_of_sum_scalar [simp]: "value_of (sum_scalar df name x) = x"
  by (simp add: value_of_def sum_scalar_def)

lemma value_of_Native [simp]: "value_of (Native x) = x"
  by (simp add: value_of_def)

lemma jsonify_number_cases:
  "jsonify_number n = (if is_native n then Inr (JNum (value_of n)) else Inl TypeError)"
  by (cases n) (simp_all add: jsonify_number_def is_native_def value_of_def)

text \<open>
  C10. For every filtered subset, the three totals of \<open>sales_metrics\<close> satisfy
  total\_sales at least 0, total\_profit at least 0 and total\_loss at most 0, because
  total\_sales is the sum of the transaction amounts greater than 0, total\_profit the
  sum of the profits greater than 0 and total\_loss the sum of the profits less than 0
  (each 0 when its column is not in the frame). For a non-empty filtered subset the
  endpoint answers with the object of these three totals, unless one of them is a
  numpy.int64 (the sum of an int64 column), which \<^verbatim>\<open>jsonify\<close> refuses with TypeError.
\<close>

theorem sales_metrics_signs:
  "0 \<le> value_of (total_sales_of filtered_df) \<and>
   0 \<le> value_of (total_profit_of filtered_df) \<and>
   value_of (total_loss_of filtered_df) \<le> 0 \<and>
   value_of (total_sales_of filtered_df) =
     (if ''Transaction_Amount'' \<in> set (columns filtered_df)
      then sum_list (filter (\<lambda>x. 0 < x)
             (dropna (map Transaction_Amount (rows filtered_df))))
      else 0) \<and>
   value_of (total_profit_of filtered_df) =
     (if ''Profit'' \<in> set (columns filtered_df)
      then sum_list (filter (\<lambda>x. 0 < x) (dropna (map Profit (rows filtered_df))))
      else 0) \<and>
   value_of (total_loss_of filtered_df) =
     (if ''Profit'' \<in> set (columns filtered_df)
      then sum_list (filter (\<lambda>x. x < 0) (dropna (map Profit (rows filtered_df))))
      else 0) \<and>
   (filter_dataset to_datetime df params = Inr filtered_df \<longrightarrow> \<not> empty filtered_df \<longrightarrow>
      sales_metrics to_datetime df params =
        (if is_native (total_sales_of filtered_df) \<and>
            is_native (total_profit_of filtered_df) \<and>
            is_native (total_loss_of filtered_df)
         then Inr (JObj [(''total_sales'', JNum (value_of (total_sales_of filtered_df))),
                         (''total_profit'', JNum (value_of (total_profit_of filtered_df))),
                         (''total_loss'', JNum (value_of (total_loss_of filtered_df)))])
         else Inl TypeError))"
proof -
  have g: "series_sum (map f (filter (\<lambda>r. gt0 (f r)) rs)) =
           sum_list (filter (\<lambda>x. 0 < x) (dropna (map f rs)))"
    for f :: "timestamp log_record \<Rightarrow> rat option" and rs
    using series_sum_where [of f "\<lambda>x. 0 < x" rs] by (simp add: gt0_def)
  have l: "series_sum (map f (filter (\<lambda>r. lt0 (f r)) rs)) =
           sum_list (filter (\<lambda>x. x < 0) (dropna (map f rs)))"
    for f :: "timestamp log_record \<Rightarrow> rat option" and rs
    using series_sum_where [of f "\<lambda>x. x < 0" rs] by (simp add: lt0_def)
  have s: "value_of (total_sales_of filtered_df) =
     (if ''Transaction_Amount'' \<in> set (columns filtered_df)
      then sum_list (filter (\<lambda>x. 0 < x)
             (dropna (map Transaction_Amount (rows filtered_df))))
      else 0)"
    by (simp add: total_sales_of_def g)
  have p: "value_of (total_profit_of filtered_df) =
     (if ''Profit'' \<in> set (columns filtered_df)
      then sum_list (filter (\<lambda>x. 0 < x) (dropna (map Profit (rows filtered_df))))
      else 0)"
    by (simp add: total_profit_of_def g)
  have n: "value_of (total_loss_of filtered_df) =
     (if ''Profit'' \<in> set (columns filtered_df)
      then sum_list (filter (\<lambda>x. x < 0) (dropna (map Profit (rows filtered_df))))
      else 0)"
    by (simp add: total_loss_of_def l)
  have s0: "0 \<le> value_of (total_sales_of filtered_df)"
    unfolding s by (simp add: sum_list_positive)
  have p0: "0 \<le> value_of (total_profit_of filtered_df)"
    unfolding p by (simp add: sum_list_positive)
  have n0: "value_of (total_loss_of filtered_df) \<le> 0"
    unfolding n by (simp add: sum_list_negative)
  have e: "sales_metrics to_datetime df params =
        (if is_native (total_sales_of filtered_df) \<and>
            is_native (total_profit_of filtered_df) \<and>
            is_native (total_loss_of filtered_df)
         then Inr (JObj [(''total_sales'', JNum (value_of (total_sales_of filtered_df))),
                         (''total_profit'', JNum (value_of (total_profit_of filtered_df))),
                         (''total_loss'', JNum (value_of (total_loss_of filtered_df)))])
         else Inl TypeError)"
    if "filter_dataset to_datetime df params = Inr filtered_df" and "\<not> empty filtered_df"
    using that by (simp add: sales_metrics_def jsonify_number_cases)
  from s0 p0 n0 s p n e show ?thesis by blast
qed

theorem sales_metrics_signs_witness:
  "filter_dataset sample_to_datetime member_rows [(''sales_rep'', ''Ann'')] = Inr member_rows \<and>
   \<not> empty member_rows \<and>
   sales_metrics sample_to_datetime member_rows [(''sales_rep'', ''Ann'')] =
     Inr (JObj [(''total_sales'', JNum 800), (''total_profit'', JNum 200),
                (''total_loss'', JNum 0)]) \<and>
   filter_dataset sample_to_datetime bare_store [] = Inr bare_store \<and>
   \<not> empty bare_store \<and>
   total_profit_of bare_store = NpInt64 0 \<and>
   sales_metrics sample_to_datetime bare_store [] = Inl TypeError"
proof -
  have f: "filter_dataset sample_to_datetime member_rows [(''sales_rep'', ''Ann'')] =
           Inr member_rows"
    by (simp add: filter_dataset_def empty_def when_given_def select_eq_def member_rows_def
        visit_def)
  have e: "\<not> empty member_rows"
    by (simp add: empty_def member_rows_def)
  have v: "total_sales_of member_rows = Native 800"
    "total_profit_of member_rows = Native 200" "total_loss_of member_rows = Native 0"
    by (simp_all add: total_sales_of_def total_profit_of_def total_loss_of_def sum_scalar_def
        gt0_def lt0_def member_rows_def visit_def blank_def)
  have m: "sales_metrics sample_to_datetime member_rows [(''sales_rep'', ''Ann'')] =
     Inr (JObj [(''total_sales'', JNum 800), (''total_profit'', JNum 200),
                (''total_loss'', JNum 0)])"
    using sales_metrics_signs [of member_rows sample_to_datetime member_rows
        "[(''sales_rep'', ''Ann'')]"] f e
    by (simp add: v is_native_def value_of_def)
  have f': "filter_dataset sample_to_datetime bare_store [] = Inr bare_store"
    by (simp add: filter_dataset_def empty_def when_given_def bare_store_def)
  have e': "\<not> empty bare_store"
    by (simp add: empty_def bare_store_def)
  have v': "total_profit_of bare_store = NpInt64 0"
    by (simp add: total_profit_of_def sum_scalar_def gt0_def bare_store_def blank_def)
  have b: "sales_metrics sample_to_datetime bare_store [] = Inl TypeError"
    using sales_metrics_signs [of bare_store sample_to_datetime bare_store "[]"] f' e'
    by (simp add: v' is_native_def)
  from f e m f' e' v' b show ?thesis by simp
qed

text \<open>
  C6. The conversion rate of a subset is the number of its records whose conversion
  status is exactly "Converted", divided by the size of the subset, times 100 (and 0 when
  the frame has no Conversion\_Status column); it is 0 for a subset without records and
  lies between 0 and 100 for every subset.
\<close>

theorem conversion_rate_range:
  "0 \<le> conversion_rate df \<and> conversion_rate df \<le> 100 \<and>
   (rows df = [] \<longrightarrow> conversion_rate df = 0) \<and>
   (rows df \<noteq> [] \<longrightarrow>
      conversion_rate df =
        (if ''Conversion_Status'' \<in> set (columns df)
         then of_nat (length (filter (\<lambda>r. Conversion_Status r = Some ''Converted'') (rows df)))
              / of_nat (length (rows df)) * 100
         else 0))"
proof -
  let ?c = "length (filter (\<lambda>r. Conversion_Status r = Some ''Converted'') (rows df))"
  let ?n = "length (rows df)"
  have "?c \<le> ?n" by (rule length_filter_le)
  then have le: "(of_nat ?c :: rat) \<le> of_nat ?n" by simp
  have "(of_nat ?c :: rat) / of_nat ?n * 100 \<le> 100" if "0 < ?n"
  proof -
    from that le have "(of_nat ?c :: rat) / of_nat ?n \<le> 1"
      by (simp add: divide_le_eq)
    from mult_right_mono [OF this, of 100] show ?thesis by simp
  qed
  moreover have "0 \<le> (of_nat ?c :: rat) / of_nat ?n * 100" by simp
  ultimately show ?thesis
    by (auto simp: conversion_rate_def)
qed

theorem conversion_rate_range_witness:
  "rows (DataFrame :: timestamp dataframe) = [] \<and>
   conversion_rate (DataFrame :: timestamp dataframe) = 0 \<and>
   rows (\<lparr>columns = [''Conversion_Status''], int64_columns = [],
          rows = [blank\<lparr>Conversion_Status := Some ''Converted''\<rparr>,
                  blank\<lparr>Conversion_Status := Some ''Converted''\<rparr>,
                  blank\<lparr>Conversion_Status := Some ''Converted''\<rparr>,
                  blank\<lparr>Conversion_Status := Some ''converted''\<rparr>]\<rparr> :: timestamp dataframe)
     \<noteq> [] \<and>
   conversion_rate (\<lparr>columns = [''Conversion_Status''], int64_columns = [],
          rows = [blank\<lparr>Conversion_Status := Some ''Converted''\<rparr>,
                  blank\<lparr>Conversion_Status := Some ''Converted''\<rparr>,
                  blank\<lparr>Conversion_Status := Some ''Converted''\<rparr>,
                  blank\<lparr>Conversion_Status := Some ''converted''\<rparr>]\<rparr> :: timestamp dataframe)
     = 75"
  using conversion_rate_range [of "DataFrame :: timestamp dataframe"]
    conversion_rate_range [of "\<lparr>columns = [''Conversion_Status''], int64_columns = [],
          rows = [blank\<lparr>Conversion_Status := Some ''Converted''\<rparr>,
                  blank\<lparr>Conversion_Status := Some ''Converted''\<rparr>,
                  blank\<lparr>Conversion_Status := Some ''Converted''\<rparr>,
                  blank\<lparr>Conversion_Status := Some ''converted''\<rparr>]\<rparr> :: timestamp dataframe"]
  by (simp add: DataFrame_def blank_def)

lemma conversion_rate_assign_date:
  "assign_date df = Inr d \<Longrightarrow> conversion_rate d = conversion_rate df"
  by (auto simp: assign_date_def conversion_rate_def with_column_def comp_def
      split: if_splits)

text \<open>
  The insights bundle of a non-empty filtered subset reports the conversion rate of that
  subset, and the label follows the threshold 50.
\<close>

lemma generate_insights_conversion_rate:
  assumes "filter_dataset to_datetime df params = Inr filtered_df"
    and "\<not> empty filtered_df"
    and "generate_insights to_datetime df params = Inr j"
  shows "\<exists>a t s.
           j = JObj [(''avg_daily_interactions'', a), (''top_service_request'', t),
                     (''total_sales'', s),
                     (''conversion_rate'', JNum (conversion_rate filtered_df)),
                     (''message'',
                        JStr (if conversion_rate filtered_df > 50
                              then ''Sales performance is strong''
                              else ''Sales performance needs improvement''))]"
proof -
  from assms obtain d where d: "assign_date filtered_df = Inr d"
    by (cases "assign_date filtered_df") (simp_all add: generate_insights_def)
  then have c: "conversion_rate d = conversion_rate filtered_df"
    by (rule conversion_rate_assign_date)
  from assms d show ?thesis
    by (auto simp: generate_insights_def Let_def bind_err_eq_Inr c)
qed

section \<open>Properties of loading\<close>

text \<open>
  C5 (as amended). For every record of the frame that \<open>load_data\<close> returns, Profit is
  Revenue minus Transaction\_Amount when the file has both columns and both cells are
  filled, missing (NaN) when the file has both columns and one of the two cells is
  empty, and 0 when the file lacks one of the two columns. For the records of scenario C
  (transaction amounts 100, -20, 50 and revenues 150, -10, 70) the profits are 50, 10, 20,
  total\_profit (the sum of the profits greater than 0) is 80 and total\_loss (the sum of
  the profits less than 0) is 0.
\<close>

theorem load_data_profit:
  "(load_data to_datetime_coerce (Some file) = Inr df \<longrightarrow>
      (\<forall>r \<in> set (rows df).
         Profit r =
           (if ''Revenue'' \<in> set (columns file) \<and> ''Transaction_Amount'' \<in> set (columns file)
            then (case (Revenue r, Transaction_Amount r) of
                    (Some x, Some y) \<Rightarrow> Some (x - y)
                  | _ \<Rightarrow> None)
            else Some 0))) \<and>
   (\<exists>store.
      load_data sample_coerce (Some scenario_c) = Inr store \<and>
      map Profit (rows store) = [Some 50, Some 10, Some 20] \<and>
      value_of (total_profit_of store) = 80 \<and>
      value_of (total_loss_of store) = 0)"
proof
  show "load_data to_datetime_coerce (Some file) = Inr df \<longrightarrow>
      (\<forall>r \<in> set (rows df).
         Profit r =
           (if ''Revenue'' \<in> set (columns file) \<and> ''Transaction_Amount'' \<in> set (columns file)
            then (case (Revenue r, Transaction_Amount r) of
                    (Some x, Some y) \<Rightarrow> Some (x - y)
                  | _ \<Rightarrow> None)
            else Some 0))"
    by (auto simp: load_data_def Let_def minus_cell_def split: if_splits option.splits)
next
  have "load_data sample_coerce (Some scenario_c) =
      Inr \<lparr>columns = [''Timestamp'', ''Transaction_Amount'', ''Revenue'', ''Profit'', ''Date''],
           int64_columns = [''Transaction_Amount'', ''Revenue'', ''Profit''],
           rows = [blank\<lparr>Timestamp := Some 86400000000000, Date := Some 1,
                         Transaction_Amount := Some 100, Revenue := Some 150,
                         Profit := Some 50\<rparr>,
                   blank\<lparr>Timestamp := Some 86400000000000, Date := Some 1,
                         Transaction_Amount := Some (- 20), Revenue := Some (- 10),
                         Profit := Some 10\<rparr>,
                   blank\<lparr>Timestamp := Some 172800000000000, Date := Some 2,
                         Transaction_Amount := Some 50, Revenue := Some 70,
                         Profit := Some 20\<rparr>]\<rparr>"
    by (simp add: load_data_def scenario_c_def Let_def sample_coerce_def sample_to_datetime_def
        minus_cell_def with_column_def date_of_def blank_def)
  then show "\<exists>store.
      load_data sample_coerce (Some scenario_c) = Inr store \<and>
      map Profit (rows store) = [Some 50, Some 10, Some 20] \<and>
      value_of (total_profit_of store) = 80 \<and>
      value_of (total_loss_of store) = 0"
    by (simp add: total_profit_of_def total_loss_of_def gt0_def lt0_def blank_def)
qed

theorem load_data_profit_witness:
  "load_data sample_coerce (Some gap_file) =
     Inr \<lparr>columns = [''Timestamp'', ''Transaction_Amount'', ''Revenue'', ''Profit'', ''Date''],
          int64_columns = [''Transaction_Amount''],
          rows = [blank\<lparr>Timestamp := Some 86400000000000, Date := Some 1,
                        Transaction_Amount := Some 100\<rparr>]\<rparr> \<and>
   Profit (blank\<lparr>Timestamp := Some 86400000000000, Date := Some 1,
                 Transaction_Amount := Some 100\<rparr> :: timestamp log_record) = None"
proof -
  have l: "load_data sample_coerce (Some gap_file) =
     Inr \<lparr>columns = [''Timestamp'', ''Transaction_Amount'', ''Revenue'', ''Profit'', ''Date''],
          int64_columns = [''Transaction_Amount''],
          rows = [blank\<lparr>Timestamp := Some 86400000000000, Date := Some 1,
                        Transaction_Amount := Some 100\<rparr>]\<rparr>"
    by (simp add: load_data_def gap_file_def Let_def sample_coerce_def sample_to_datetime_def
        minus_cell_def with_column_def date_of_def blank_def)
  from load_data_profit [of sample_coerce gap_file] l
  have "Profit (blank\<lparr>Timestamp := Some 86400000000000, Date := Some 1,
                 Transaction_Amount := Some 100\<rparr> :: timestamp log_record) = None"
    by (simp add: gap_file_def blank_def)
  with l show ?thesis by simp
qed

theorem load_data_profit_counterexample:
  "load_data sample_coerce (Some gap_file) =
     Inr \<lparr>columns = [''Timestamp'', ''Transaction_Amount'', ''Revenue'', ''Profit'', ''Date''],
          int64_columns = [''Transaction_Amount''],
          rows = [blank\<lparr>Timestamp := Some 86400000000000, Date := Some 1, Revenue := None,
                        Transaction_Amount := Some 100, Profit := None\<rparr>]\<rparr> \<and>
   load_data sample_coerce (Some gap_file) \<noteq>
     Inr \<lparr>columns = [''Timestamp'', ''Transaction_Amount'', ''Revenue'', ''Profit'', ''Date''],
          int64_columns = [''Transaction_Amount''],
          rows = [blank\<lparr>Timestamp := Some 86400000000000, Date := Some 1, Revenue := None,
                        Transaction_Amount := Some 100, Profit := Some 0\<rparr>]\<rparr>"
  by (simp add: load_data_def gap_file_def Let_def sample_coerce_def sample_to_datetime_def
      minus_cell_def with_column_def date_of_def blank_def)

text \<open>
  With the whole amounts of scenario C the three columns are int64, the sums are
  numpy.int64, and the endpoint itself raises in \<^verbatim>\<open>jsonify\<close>.
\<close>

lemma sales_metrics_scenario_c:
  assumes "load_data sample_coerce (Some scenario_c) = Inr store"
  shows "sales_metrics sample_to_datetime store [] = Inl TypeError"
proof -
  from assms have "store =
      \<lparr>columns = [''Timestamp'', ''Transaction_Amount'', ''Revenue'', ''Profit'', ''Date''],
       int64_columns = [''Transaction_Amount'', ''Revenue'', ''Profit''],
       rows = [blank\<lparr>Timestamp := Some 86400000000000, Date := Some 1,
                     Transaction_Amount := Some 100, Revenue := Some 150,
                     Profit := Some 50\<rparr>,
               blank\<lparr>Timestamp := Some 86400000000000, Date := Some 1,
                     Transaction_Amount := Some (- 20), Revenue := Some (- 10),
                     Profit := Some 10\<rparr>,
               blank\<lparr>Timestamp := Some 172800000000000, Date := Some 2,
                     Transaction_Amount := Some 50, Revenue := Some 70,
                     Profit := Some 20\<rparr>]\<rparr>"
    by (simp add: load_data_def scenario_c_def Let_def sample_coerce_def sample_to_datetime_def
        minus_cell_def with_column_def date_of_def blank_def)
  then show ?thesis
    by (simp add: sales_metrics_def filter_dataset_def when_given_def empty_def
        total_sales_of_def sum_scalar_def jsonify_number_def)
qed

section \<open>Properties of the endpoints on degenerate data\<close>

text \<open>
  C1. On a loaded frame whose file had no Service\_Type, Product\_Name, Page\_Accessed or
  Sales\_Rep column, the service-request, top-products, page-access and
  per-representative endpoints raise ValueError: the table without columns cannot take
  the two column names. On a frame whose Service\_Type column has no filled cell, the
  insights endpoint raises ValueError in \<open>idxmax\<close>.
\<close>

theorem aggregation_raises:
  "service_requests sample_to_datetime bare_store [] = Inl ValueError \<and>
   top_products sample_to_datetime bare_store [] = Inl ValueError \<and>
   page_access sample_to_datetime bare_store [] = Inl ValueError \<and>
   sales_by_rep sample_to_datetime bare_store [] = Inl ValueError \<and>
   generate_insights sample_to_datetime silent_store [] = Inl ValueError"
  by (simp add: service_requests_def top_products_def page_access_def sales_by_rep_def
      generate_insights_def filter_dataset_def when_given_def empty_def set_columns_def
      no_table_def assign_date_def with_column_def value_counts_def unique_def
      bare_store_def silent_store_def blank_def)

lemma is_no_data_no_data: "is_no_data params (no_data message params)"
  by (simp add: is_no_data_def no_data_def)

lemma value_counts_Nil: "value_counts [] = []"
  by (simp add: value_counts_def unique_def)

lemma groupby_size_Nil: "groupby_size key [] = []"
  by (simp add: groupby_size_def group_keys_def)

text \<open>
  C4 (as amended). For every filter spec under which the filtered subset has no record,
  the six endpoints that test for it (sales metrics, top products, customer locations,
  page access, insights bundle, per-representative sales) answer with the shape of
  message, filters and data\_count 0; the total entry count answers total\_entries 0, the
  unique visitors answer unique\_visitors 0, the job-title frequency answers with a
  message and the filters, and the daily trend and the service-request frequency answer
  with an empty list of rows when the frame has the Timestamp column, respectively the
  Service\_Type column.
\<close>

theorem empty_subset_answers:
  assumes "filter_dataset to_datetime df params = Inr filtered_df"
    and "rows filtered_df = []"
  shows "(\<forall>endpoint \<in> set guarded_endpoints.
            \<exists>j. endpoint to_datetime df params = Inr j \<and> is_no_data params j) \<and>
         total_entries to_datetime df params = Inr (JObj [(''total_entries'', JNum 0)]) \<and>
         unique_visitors to_datetime df params = Inr (JObj [(''unique_visitors'', JNum 0)]) \<and>
         job_title_counts to_datetime df params =
           Inr (JObj [(''message'', JStr job_title_message), (''filters'', filters params)]) \<and>
         (''Timestamp'' \<in> set (columns filtered_df) \<longrightarrow>
            trends to_datetime df params = Inr (JArr [])) \<and>
         (''Service_Type'' \<in> set (columns filtered_df) \<longrightarrow>
            service_requests to_datetime df params = Inr (JArr []))"
proof -
  from assms(2) have e: "empty filtered_df" by (simp add: empty_def)
  have g: "\<forall>endpoint \<in> set guarded_endpoints.
            \<exists>j. endpoint to_datetime df params = Inr j \<and> is_no_data params j"
    using assms(1) e
    by (simp add: guarded_endpoints_def sales_metrics_def top_products_def
        customer_locations_def page_access_def generate_insights_def sales_by_rep_def
        is_no_data_no_data)
  have t: "total_entries to_datetime df params = Inr (JObj [(''total_entries'', JNum 0)])"
    using assms by (simp add: total_entries_def)
  have u: "unique_visitors to_datetime df params = Inr (JObj [(''unique_visitors'', JNum 0)])"
    using assms by (simp add: unique_visitors_def nunique_def unique_def)
  have j: "job_title_counts to_datetime df params =
           Inr (JObj [(''message'', JStr job_title_message), (''filters'', filters params)])"
    using assms(1) e by (simp add: job_title_counts_def)
  have d: "trends to_datetime df params = Inr (JArr [])"
    if "''Timestamp'' \<in> set (columns filtered_df)"
    using assms that
    by (simp add: trends_def assign_date_def daily_interactions_def groupby_size_Nil
        to_dict_records_def)
  have s: "service_requests to_datetime df params = Inr (JArr [])"
    if "''Service_Type'' \<in> set (columns filtered_df)"
    using assms that
    by (simp add: service_requests_def value_counts_Nil counts_table_def set_columns_def
        to_dict_records_def)
  from g t u j d s show ?thesis by blast
qed

theorem empty_subset_answers_witness:
  "filter_dataset sample_to_datetime sample_store [(''country'', ''Z'')] =
     Inr (sample_store\<lparr>rows := []\<rparr>) \<and>
   rows (sample_store\<lparr>rows := []\<rparr>) = [] \<and>
   (\<exists>j. sales_metrics sample_to_datetime sample_store [(''country'', ''Z'')] = Inr j \<and>
        is_no_data [(''country'', ''Z'')] j) \<and>
   (\<exists>j. sales_by_rep sample_to_datetime sample_store [(''country'', ''Z'')] = Inr j \<and>
        is_no_data [(''country'', ''Z'')] j) \<and>
   total_entries sample_to_datetime sample_store [(''country'', ''Z'')] =
     Inr (JObj [(''total_entries'', JNum 0)]) \<and>
   trends sample_to_datetime sample_store [(''country'', ''Z'')] = Inr (JArr [])"
proof -
  have f: "filter_dataset sample_to_datetime sample_store [(''country'', ''Z'')] =
           Inr (sample_store\<lparr>rows := []\<rparr>)"
    by (simp add: filter_dataset_def empty_def when_given_def select_eq_def sample_store_def
        visit_def)
  have r: "rows (sample_store\<lparr>rows := []\<rparr>) = []" by simp
  have c: "''Timestamp'' \<in> set (columns (sample_store\<lparr>rows := []\<rparr>))"
    by (simp add: sample_store_def)
  from empty_subset_answers [OF f r] c f r show ?thesis
    by (simp add: guarded_endpoints_def)
qed

theorem empty_subset_answers_counterexample:
  "global_df sample_coerce None = Inr DataFrame \<and>
   filter_dataset sample_to_datetime DataFrame [] = Inr DataFrame \<and>
   total_entries sample_to_datetime DataFrame [] = Inr (JObj [(''total_entries'', JNum 0)]) \<and>
   \<not> is_no_data [] (JObj [(''total_entries'', JNum 0)])"
  by (simp add: global_df_def load_data_def total_entries_def filter_dataset_def empty_def
      DataFrame_def is_no_data_def)

section \<open>Properties of the individual performance metrics\<close>

text \<open>
  When the first record of the subset has a sales target, the metrics are the sums of
  the transaction amounts and of the revenues, that target, and the revenue as a
  percentage of it (0 for the target 0); without the column the target and the
  achievement are 0.
\<close>

lemma individual_metrics_first_target_present:
  assumes "''Sales_Target'' \<in> set (columns member_data)"
    and "rows member_data = r # rs" and "Sales_Target r = Some t"
  shows "sales_target (individual_metrics member_data) = Some t"
    and "achievement_pct (individual_metrics member_data) =
           (if t = 0 then Some 0
            else Some (total_revenue (individual_metrics member_data) / t * 100))"
  using assms by (simp_all add: individual_metrics_def iloc0_def Let_def)

lemma individual_metrics_no_target_column:
  assumes "''Sales_Target'' \<notin> set (columns member_data)"
  shows "sales_target (individual_metrics member_data) = Some 0"
    and "achievement_pct (individual_metrics member_data) = Some 0"
  using assms by (simp_all add: individual_metrics_def Let_def)

text \<open>
  C7. For the records of one representative whose first record has no sales target and
  whose second has the target 1000, with a revenue of 500 each, the sales target is
  missing (NaN) and so are the achievement percentage and the difference to the target;
  the first filled target is 1000 and the achievement against it would be 100.
\<close>

theorem individual_metrics_first_target_missing:
  "individual_metrics member_rows =
     \<lparr>total_sales = 800, total_revenue = 1000, sales_target = None,
      achievement_pct = None, delta_value = None\<rparr> \<and>
   dropna (map Sales_Target (rows member_rows)) = [1000]"
  by (simp add: individual_metrics_def iloc0_def Let_def member_rows_def visit_def blank_def)

end
